theory Spec2Isabelle
  imports Main
begin

section \<open>Data model of \<open>chess_analysis.py\<close>\<close>

text \<open>
  A game is the JSON object of the Chess.com archive. The keys the code reads with
  \<open>game["white"]["username"]\<close>, \<open>["result"]\<close> are required fields; the keys it reads
  with \<open>.get(key, default)\<close> or tests with \<open>"pgn" in game\<close> are optional.
  Python integers are unbounded, hence \<open>int\<close>.
\<close>

record player =
  username :: string
  rating :: "int option"
  result :: string

record game =
  white :: player
  black :: player
  time_control :: "string option"
  end_time :: "int option"
  pgn :: "string option"

text \<open>
  \<open>chess.pgn.read_game\<close> is a library call inside a \<open>try\<close> block: it raises
  (\<open>ParseError\<close>), returns \<open>None\<close> (\<open>NoGame\<close>) or returns a game whose mainline is a
  list of moves; \<open>Game ms\<close> carries \<open>str(move)\<close> for each move of the mainline.
\<close>

datatype pgn_result = ParseError | NoGame | Game "string list"

text \<open>
  \<open>self.stats\<close> after the initialisation of \<open>analizar_partidas\<close>. A \<open>Counter\<close>, a
  \<open>defaultdict\<close> and a \<open>dict\<close> keep their keys in insertion order, so each is an
  association list with one entry per key.
\<close>

record stats =
  ganadas :: int
  perdidas :: int
  tablas :: int
  blancas_g :: int
  blancas_partidas :: int
  negras_g :: int
  negras_partidas :: int
  total_jugadas :: int
  rivales :: "string list"
  ratings_rivales :: "int list"
  time_controls :: "(string \<times> int) list"
  tablas_por_tipo :: "(string \<times> int) list"
  racha_actual :: int
  racha_max_g :: int
  racha_max_p :: int
  partida_corta :: "string \<times> int"
  partida_larga :: "string \<times> int"
  mejor_victoria :: "string \<times> int"
  peor_derrota :: "string \<times> int"
  aperturas :: "(string \<times> int) list"
  aperturas_con_resultados :: "(string \<times> (int \<times> int)) list"
  partidas_analizadas :: int
  juegos_por_dia :: "(string \<times> int) list"
  resultados_dia :: "(string \<times> (string \<times> int) list) list"

text \<open>
  The object: \<open>self.user\<close>, \<open>self.partidas\<close> and \<open>self.stats\<close>, where \<open>None\<close> stands for
  the empty dictionary \<open>{}\<close> that \<open>__init__\<close> stores.
\<close>

record analizador =
  user :: string
  partidas :: "game list"
  stats :: "stats option"

section \<open>Strings and dictionaries\<close>

text \<open>\<open>str.lower\<close> on ASCII letters (the alphabet of Chess.com user names).\<close>

definition lower_char :: "char \<Rightarrow> char" where
  "lower_char c =
     (case map_of (zip ''ABCDEFGHIJKLMNOPQRSTUVWXYZ'' ''abcdefghijklmnopqrstuvwxyz'') c of
        None \<Rightarrow> c
      | Some d \<Rightarrow> d)"

definition lower :: "string \<Rightarrow> string" where
  "lower s = map lower_char s"

text \<open>\<open>sep.join(xs)\<close>.\<close>

fun join :: "string \<Rightarrow> string list \<Rightarrow> string" where
  "join sep [] = []"
| "join sep [x] = x"
| "join sep (x # y # ys) = x @ sep @ join sep (y # ys)"

text \<open>
  \<open>d[k] = f(d[k])\<close> on a dictionary with default value \<open>dflt\<close> for a missing key
  (\<open>Counter\<close>, \<open>defaultdict\<close>): an existing key keeps its place, a new key goes last.
\<close>

fun dict_update :: "'v \<Rightarrow> ('v \<Rightarrow> 'v) \<Rightarrow> 'k \<Rightarrow> ('k \<times> 'v) list \<Rightarrow> ('k \<times> 'v) list" where
  "dict_update dflt f k [] = [(k, f dflt)]"
| "dict_update dflt f k ((k', v) # kvs) =
     (if k' = k then (k', f v) # kvs else (k', v) # dict_update dflt f k kvs)"

text \<open>\<open>c[k] += 1\<close> on a \<open>Counter\<close> or a \<open>defaultdict(int)\<close>.\<close>

definition counter_inc :: "'k \<Rightarrow> ('k \<times> int) list \<Rightarrow> ('k \<times> int) list" where
  "counter_inc k c = dict_update 0 (\<lambda>n. n + 1) k c"

text \<open>\<open>c[k]\<close> read on a \<open>Counter\<close>: 0 for a missing key.\<close>

definition counter_get :: "('k \<times> int) list \<Rightarrow> 'k \<Rightarrow> int" where
  "counter_get c k = (case map_of c k of None \<Rightarrow> 0 | Some n \<Rightarrow> n)"

section \<open>\<open>ChessAnalizadorPro\<close>\<close>

definition init :: "string \<Rightarrow> analizador" where
  "init name = \<lparr>user = lower name, partidas = [], stats = None\<rparr>"

text \<open>The dictionary that \<open>analizar_partidas\<close> stores before its loop.\<close>

definition stats_iniciales :: stats where
  "stats_iniciales =
     \<lparr>ganadas = 0, perdidas = 0, tablas = 0,
      blancas_g = 0, blancas_partidas = 0,
      negras_g = 0, negras_partidas = 0,
      total_jugadas = 0,
      rivales = [],
      ratings_rivales = [],
      time_controls = [],
      tablas_por_tipo = [],
      racha_actual = 0, racha_max_g = 0, racha_max_p = 0,
      partida_corta = ([], 9999),
      partida_larga = ([], 0),
      mejor_victoria = ([], 0),
      peor_derrota = ([], 9999),
      aperturas = [],
      aperturas_con_resultados = [],
      partidas_analizadas = 0,
      juegos_por_dia = [],
      resultados_dia = []\<rparr>"

text \<open>The result codes of a lost game: \<open>("checkmated", "resigned", "timeout", "lose")\<close>.\<close>

definition derrotas :: "string list" where
  "derrotas = [''checkmated'', ''resigned'', ''timeout'', ''lose'']"

text \<open>Lines 108 to 127: the three branches on \<open>resultado\<close>.\<close>

definition clasificar :: "bool \<Rightarrow> string \<Rightarrow> int \<Rightarrow> string \<Rightarrow> stats \<Rightarrow> stats" where
  "clasificar es_blanco rival rating_rival resultado s =
     (if resultado = ''win'' then
        let s = s\<lparr>ganadas := ganadas s + 1\<rparr>;
            s = s\<lparr>racha_actual := (if racha_actual s \<ge> 0 then racha_actual s + 1 else 1)\<rparr>;
            s = s\<lparr>racha_max_g := max (racha_max_g s) (racha_actual s)\<rparr>;
            s = (if es_blanco then s\<lparr>blancas_g := blancas_g s + 1\<rparr>
                 else s\<lparr>negras_g := negras_g s + 1\<rparr>)
        in if rating_rival > snd (mejor_victoria s)
           then s\<lparr>mejor_victoria := (rival, rating_rival)\<rparr> else s
      else if resultado \<in> set derrotas then
        let s = s\<lparr>perdidas := perdidas s + 1\<rparr>;
            s = s\<lparr>racha_actual := (if racha_actual s \<le> 0 then racha_actual s - 1 else - 1)\<rparr>;
            s = s\<lparr>racha_max_p := min (racha_max_p s) (racha_actual s)\<rparr>
        in if rating_rival < snd (peor_derrota s)
           then s\<lparr>peor_derrota := (rival, rating_rival)\<rparr> else s
      else
        let s = s\<lparr>tablas := tablas s + 1\<rparr>;
            s = s\<lparr>tablas_por_tipo := counter_inc resultado (tablas_por_tipo s)\<rparr>
        in s\<lparr>racha_actual := 0\<rparr>)"

text \<open>
  Lines 135 to 148: the body of \<open>if partida_pgn:\<close>, for the transcript \<open>p\<close> and the
  moves \<open>ms\<close> of its mainline.
\<close>

definition apertura_key :: "string list \<Rightarrow> string" where
  "apertura_key ms = join '' '' (take 4 ms)"

definition analizar_pgn :: "string \<Rightarrow> string list \<Rightarrow> string \<Rightarrow> stats \<Rightarrow> stats" where
  "analizar_pgn p ms resultado s =
     (let jugadas = int (length ms);
          s = s\<lparr>total_jugadas := total_jugadas s + jugadas\<rparr>;
          s = (if jugadas < snd (partida_corta s) then s\<lparr>partida_corta := (p, jugadas)\<rparr> else s);
          s = (if jugadas > snd (partida_larga s) then s\<lparr>partida_larga := (p, jugadas)\<rparr> else s);
          k = apertura_key ms
      in if k \<noteq> [] then
           let s = s\<lparr>aperturas := counter_inc k (aperturas s)\<rparr>;
               s = (if resultado = ''win''
                    then s\<lparr>aperturas_con_resultados :=
                             dict_update (0, 0) (\<lambda>(g, t). (g + 1, t)) k (aperturas_con_resultados s)\<rparr>
                    else s)
           in s\<lparr>aperturas_con_resultados :=
                  dict_update (0, 0) (\<lambda>(g, t). (g, t + 1)) k (aperturas_con_resultados s)\<rparr>
         else s)"

text \<open>
  Lines 154 to 164, for the time-control label \<open>tc\<close> and the weekday name \<open>dia\<close>.
\<close>

definition clave_resultado :: "string \<Rightarrow> string" where
  "clave_resultado resultado =
     (if resultado = ''win'' then ''ganadas''
      else if resultado \<in> set derrotas then ''perdidas''
      else ''tablas'')"

definition registrar :: "string \<Rightarrow> string \<Rightarrow> string \<Rightarrow> stats \<Rightarrow> stats" where
  "registrar tc dia resultado s =
     (let s = s\<lparr>time_controls := counter_inc tc (time_controls s)\<rparr>;
          s = s\<lparr>juegos_por_dia := counter_inc dia (juegos_por_dia s)\<rparr>
      in s\<lparr>resultados_dia :=
             dict_update [] (counter_inc (clave_resultado resultado)) dia (resultados_dia s)\<rparr>)"

text \<open>\<open>game.get("time_control", "N/A")\<close>.\<close>

definition tc_of :: "game \<Rightarrow> string" where
  "tc_of g = (case time_control g of None \<Rightarrow> ''N/A'' | Some t \<Rightarrow> t)"

text \<open>
  \<open>filtro_tc and tc != filtro_tc\<close>: \<open>None\<close> and the empty string are both false in
  Python, so neither filters.
\<close>

definition filtrada :: "string option \<Rightarrow> string \<Rightarrow> bool" where
  "filtrada filtro_tc tc =
     (case filtro_tc of None \<Rightarrow> False | Some f \<Rightarrow> f \<noteq> [] \<and> tc \<noteq> f)"

text \<open>\<open>side.get("rating", 0)\<close>.\<close>

definition rating_of :: "player \<Rightarrow> int" where
  "rating_of pl = (case rating pl of None \<Rightarrow> 0 | Some r \<Rightarrow> r)"

text \<open>
  One iteration of the loop of \<open>analizar_partidas\<close> (lines 82 to 164). The parameters
  \<open>read_game\<close> and \<open>dia_semana\<close> stand for the library calls
  \<open>chess.pgn.read_game(io.StringIO(...))\<close> and
  \<open>datetime.datetime.fromtimestamp(...).strftime("%A")\<close>; the latter is taken to return a
  name for every timestamp. A \<open>continue\<close> returns the statistics as they are at that
  point.
\<close>

definition paso ::
  "(string \<Rightarrow> pgn_result) \<Rightarrow> (int \<Rightarrow> string) \<Rightarrow> string \<Rightarrow> string option \<Rightarrow> int
     \<Rightarrow> stats \<Rightarrow> game \<Rightarrow> stats" where
  "paso read_game dia_semana usr filtro_tc min_rating s g =
     (let tc = tc_of g in
      if filtrada filtro_tc tc then s
      else
        let blanco = lower (username (white g));
            negro = lower (username (black g));
            es_blanco = (blanco = usr);
            s = (if es_blanco then s\<lparr>blancas_partidas := blancas_partidas s + 1\<rparr>
                 else s\<lparr>negras_partidas := negras_partidas s + 1\<rparr>);
            rival = (if es_blanco then negro else blanco);
            rating_rival = (if es_blanco then rating_of (black g) else rating_of (white g));
            resultado = (if es_blanco then result (white g) else result (black g))
        in if rating_rival < min_rating then s
           else
             let s = s\<lparr>rivales := rivales s @ [rival]\<rparr>;
                 s = s\<lparr>ratings_rivales := ratings_rivales s @ [rating_rival]\<rparr>;
                 s = s\<lparr>partidas_analizadas := partidas_analizadas s + 1\<rparr>;
                 s = clasificar es_blanco rival rating_rival resultado s;
                 dia = dia_semana (case end_time g of None \<Rightarrow> 0 | Some t \<Rightarrow> t)
             in case pgn g of
                  None \<Rightarrow> registrar tc dia resultado s
                | Some p \<Rightarrow>
                    (case read_game p of
                       ParseError \<Rightarrow> s
                     | NoGame \<Rightarrow> registrar tc dia resultado s
                     | Game ms \<Rightarrow> registrar tc dia resultado (analizar_pgn p ms resultado s)))"

text \<open>The loop over \<open>self.partidas\<close>, from the initial dictionary.\<close>

definition recorrer ::
  "(string \<Rightarrow> pgn_result) \<Rightarrow> (int \<Rightarrow> string) \<Rightarrow> string \<Rightarrow> string option \<Rightarrow> int
     \<Rightarrow> stats \<Rightarrow> game list \<Rightarrow> stats" where
  "recorrer read_game dia_semana usr filtro_tc min_rating s gs =
     foldl (paso read_game dia_semana usr filtro_tc min_rating) s gs"

text \<open>
  \<open>analizar_partidas(filtro_tc, min_rating)\<close>: with no games it returns at once and
  \<open>self.stats\<close> stays what it was; otherwise \<open>self.stats\<close> is rebuilt from the initial
  dictionary.
\<close>

definition analizar_partidas ::
  "(string \<Rightarrow> pgn_result) \<Rightarrow> (int \<Rightarrow> string) \<Rightarrow> string option \<Rightarrow> int
     \<Rightarrow> analizador \<Rightarrow> analizador" where
  "analizar_partidas read_game dia_semana filtro_tc min_rating a =
     (if partidas a = [] then a
      else a\<lparr>stats :=
               Some (recorrer read_game dia_semana (user a) filtro_tc min_rating
                       stats_iniciales (partidas a))\<rparr>)"

text \<open>
  The numbers that \<open>generar_reporte\<close> derives (lines 172 to 222); \<open>None\<close> is the early
  return after "No se gener\'o un reporte.". Python's \<open>//\<close> is \<open>div\<close> on \<open>int\<close>.
\<close>

record reporte =
  winrate :: int
  winrate_blancas :: "int option"
  winrate_negras :: "int option"
  avg_rating :: "int option"
  promedio_jugadas :: "int option"

definition generar_reporte :: "analizador \<Rightarrow> reporte option" where
  "generar_reporte a =
     (case stats a of
        None \<Rightarrow> None
      | Some s \<Rightarrow>
          if partidas_analizadas s = 0 then None
          else Some
            \<lparr>winrate = (if partidas_analizadas s > 0
                         then ganadas s * 100 div partidas_analizadas s else 0),
             winrate_blancas = (if blancas_partidas s > 0
                                 then Some (blancas_g s * 100 div blancas_partidas s) else None),
             winrate_negras = (if negras_partidas s > 0
                                then Some (negras_g s * 100 div negras_partidas s) else None),
             avg_rating = (if ratings_rivales s \<noteq> []
                            then Some (sum_list (ratings_rivales s) div int (length (ratings_rivales s)))
                            else None),
             promedio_jugadas = (if partidas_analizadas s > 0
                                  then Some (total_jugadas s div partidas_analizadas s) else None)\<rparr>)"

section \<open>Notions used to state the properties\<close>

text \<open>
  The values that lines 87 to 99 bind for a game: whether the tracked player is taken to
  play white, and the \<open>rival\<close>, \<open>rating_rival\<close> and \<open>resultado\<close> that follow.
\<close>

definition juega_blancas :: "string \<Rightarrow> game \<Rightarrow> bool" where
  "juega_blancas usr g \<longleftrightarrow> lower (username (white g)) = usr"

definition rival_de :: "string \<Rightarrow> game \<Rightarrow> string" where
  "rival_de usr g =
     (if juega_blancas usr g then lower (username (black g)) else lower (username (white g)))"

definition rating_rival_de :: "string \<Rightarrow> game \<Rightarrow> int" where
  "rating_rival_de usr g =
     (if juega_blancas usr g then rating_of (black g) else rating_of (white g))"

definition resultado_de :: "string \<Rightarrow> game \<Rightarrow> string" where
  "resultado_de usr g =
     (if juega_blancas usr g then result (white g) else result (black g))"

text \<open>
  The values of \<open>racha_actual\<close> seen during the loop: the one before the first game and
  the one after each iteration.
\<close>

fun rachas_vistas ::
  "(string \<Rightarrow> pgn_result) \<Rightarrow> (int \<Rightarrow> string) \<Rightarrow> string \<Rightarrow> string option \<Rightarrow> int
     \<Rightarrow> stats \<Rightarrow> game list \<Rightarrow> int list" where
  "rachas_vistas read_game dia_semana usr filtro_tc min_rating s [] = [racha_actual s]"
| "rachas_vistas read_game dia_semana usr filtro_tc min_rating s (g # gs) =
     racha_actual s #
     rachas_vistas read_game dia_semana usr filtro_tc min_rating
       (paso read_game dia_semana usr filtro_tc min_rating s g) gs"

text \<open>
  The bounds that the two extreme streaks keep around the current one during the loop.
\<close>

definition racha_ok :: "stats \<Rightarrow> bool" where
  "racha_ok s \<longleftrightarrow>
     racha_actual s \<le> racha_max_g s \<and> 0 \<le> racha_max_g s \<and>
     racha_max_p s \<le> racha_actual s \<and> racha_max_p s \<le> 0"

text \<open>
  \<open>d[k]\<close> read on \<open>aperturas_con_resultados\<close>, as the pair \<open>(ganadas, total)\<close>; a missing
  key has the default \<open>{'ganadas': 0, 'total': 0}\<close>.
\<close>

definition resultados_apertura :: "(string \<times> (int \<times> int)) list \<Rightarrow> string \<Rightarrow> int \<times> int" where
  "resultados_apertura d k = (case map_of d k of None \<Rightarrow> (0, 0) | Some v \<Rightarrow> v)"

section \<open>A concrete run\<close>

text \<open>
  A parser and a calendar to run the code on: transcripts of 20, 30 and 40 half-moves
  (knights going out and back), a second transcript of 20 half-moves, an empty
  transcript without a game, any other text raising; weekdays in UTC (1 January 1970
  was a Thursday).
\<close>

definition jugadas_ej :: "nat \<Rightarrow> string list" where
  "jugadas_ej n = take n (concat (replicate 10 [''g1f3'', ''g8f6'', ''f3g1'', ''f6g8'']))"

definition jugadas_ej_b :: "nat \<Rightarrow> string list" where
  "jugadas_ej_b n = take n (concat (replicate 10 [''b1c3'', ''b8c6'', ''c3b1'', ''c6b8'']))"

definition read_game_ej :: "string \<Rightarrow> pgn_result" where
  "read_game_ej p =
     (if p = ''pgn20'' then Game (jugadas_ej 20)
      else if p = ''pgn30'' then Game (jugadas_ej 30)
      else if p = ''pgn40'' then Game (jugadas_ej 40)
      else if p = ''pgn20b'' then Game (jugadas_ej_b 20)
      else if p = [] then NoGame
      else ParseError)"

definition dia_semana_ej :: "int \<Rightarrow> string" where
  "dia_semana_ej t =
     [''Thursday'', ''Friday'', ''Saturday'', ''Sunday'', ''Monday'', ''Tuesday'', ''Wednesday'']
       ! nat ((t div 86400) mod 7)"

definition partida_ej1 :: game where
  "partida_ej1 =
     \<lparr>white = \<lparr>username = ''User'', rating = Some 1480, result = ''win''\<rparr>,
      black = \<lparr>username = ''rival1'', rating = Some 1500, result = ''checkmated''\<rparr>,
      time_control = Some ''600'', end_time = Some 1700000000, pgn = Some ''pgn20''\<rparr>"

definition partida_ej2 :: game where
  "partida_ej2 =
     \<lparr>white = \<lparr>username = ''rival2'', rating = Some 1600, result = ''win''\<rparr>,
      black = \<lparr>username = ''User'', rating = Some 1488, result = ''resigned''\<rparr>,
      time_control = Some ''600'', end_time = Some 1700090000, pgn = Some ''pgn30''\<rparr>"

definition partida_ej3 :: game where
  "partida_ej3 =
     \<lparr>white = \<lparr>username = ''User'', rating = Some 1480, result = ''agreed''\<rparr>,
      black = \<lparr>username = ''rival3'', rating = Some 1400, result = ''agreed''\<rparr>,
      time_control = Some ''180'', end_time = Some 1700180000, pgn = Some ''pgn40''\<rparr>"

text \<open>
  A fourth game of 20 half-moves, a game whose transcript makes the parser raise, and
  the same game without transcript.
\<close>

definition partida_ej4 :: game where
  "partida_ej4 =
     \<lparr>white = \<lparr>username = ''User'', rating = Some 1475, result = ''timeout''\<rparr>,
      black = \<lparr>username = ''rival4'', rating = Some 1450, result = ''win''\<rparr>,
      time_control = Some ''600'', end_time = Some 1700270000, pgn = Some ''pgn20b''\<rparr>"



text \<open>The tracked player with these three games downloaded.\<close>

definition analizador_ej :: analizador where
  "analizador_ej = (init ''User'')\<lparr>partidas := [partida_ej1, partida_ej2, partida_ej3]\<rparr>"

section \<open>One iteration of the loop\<close>

lemma paso_filtrada:
  "filtrada f (tc_of g) \<Longrightarrow> paso rg ds usr f m s g = s"
  by (simp add: paso_def)

lemma paso_rating_bajo:
  "\<not> filtrada f (tc_of g) \<Longrightarrow> rating_rival_de usr g < m \<Longrightarrow>
   paso rg ds usr f m s g =
     (if juega_blancas usr g then s\<lparr>blancas_partidas := blancas_partidas s + 1\<rparr>
      else s\<lparr>negras_partidas := negras_partidas s + 1\<rparr>)"
  by (simp add: paso_def Let_def rating_rival_de_def juega_blancas_def)

lemma paso_pasa:
  "\<not> filtrada f (tc_of g) \<Longrightarrow> \<not> rating_rival_de usr g < m \<Longrightarrow>
   paso rg ds usr f m s g =
     (let s1 = (if juega_blancas usr g then s\<lparr>blancas_partidas := blancas_partidas s + 1\<rparr>
                else s\<lparr>negras_partidas := negras_partidas s + 1\<rparr>);
          s2 = clasificar (juega_blancas usr g) (rival_de usr g) (rating_rival_de usr g)
                 (resultado_de usr g)
                 (s1\<lparr>rivales := rivales s1 @ [rival_de usr g],
                     ratings_rivales := ratings_rivales s1 @ [rating_rival_de usr g],
                     partidas_analizadas := partidas_analizadas s1 + 1\<rparr>);
          dia = ds (case end_time g of None \<Rightarrow> 0 | Some t \<Rightarrow> t)
      in case pgn g of
           None \<Rightarrow> registrar (tc_of g) dia (resultado_de usr g) s2
         | Some p \<Rightarrow>
             (case rg p of
                ParseError \<Rightarrow> s2
              | NoGame \<Rightarrow> registrar (tc_of g) dia (resultado_de usr g) s2
              | Game ms \<Rightarrow>
                  registrar (tc_of g) dia (resultado_de usr g)
                    (analizar_pgn p ms (resultado_de usr g) s2)))"
  by (simp add: paso_def Let_def rating_rival_de_def juega_blancas_def rival_de_def
      resultado_de_def split: option.splits pgn_result.splits)

section \<open>The counting invariant\<close>

lemma clasificar_cuenta:
  "ganadas (clasificar b r rr res s) + perdidas (clasificar b r rr res s)
     + tablas (clasificar b r rr res s)
   = ganadas s + perdidas s + tablas s + 1"
  by (simp add: clasificar_def Let_def)

lemma clasificar_listas:
  "partidas_analizadas (clasificar b r rr res s) = partidas_analizadas s"
  "rivales (clasificar b r rr res s) = rivales s"
  "ratings_rivales (clasificar b r rr res s) = ratings_rivales s"
  by (simp_all add: clasificar_def Let_def)

lemma analizar_pgn_cuenta:
  "ganadas (analizar_pgn p ms res s) = ganadas s"
  "perdidas (analizar_pgn p ms res s) = perdidas s"
  "tablas (analizar_pgn p ms res s) = tablas s"
  "partidas_analizadas (analizar_pgn p ms res s) = partidas_analizadas s"
  "rivales (analizar_pgn p ms res s) = rivales s"
  "ratings_rivales (analizar_pgn p ms res s) = ratings_rivales s"
  by (simp_all add: analizar_pgn_def Let_def)

lemma registrar_cuenta:
  "ganadas (registrar tc d res s) = ganadas s"
  "perdidas (registrar tc d res s) = perdidas s"
  "tablas (registrar tc d res s) = tablas s"
  "partidas_analizadas (registrar tc d res s) = partidas_analizadas s"
  "rivales (registrar tc d res s) = rivales s"
  "ratings_rivales (registrar tc d res s) = ratings_rivales s"
  by (simp_all add: registrar_def Let_def)

lemma paso_cuenta:
  assumes "ganadas s + perdidas s + tablas s = partidas_analizadas s"
    and "int (length (rivales s)) = partidas_analizadas s"
    and "int (length (ratings_rivales s)) = partidas_analizadas s"
  shows "ganadas (paso rg ds u f m s g) + perdidas (paso rg ds u f m s g)
           + tablas (paso rg ds u f m s g) = partidas_analizadas (paso rg ds u f m s g)
         \<and> int (length (rivales (paso rg ds u f m s g))) = partidas_analizadas (paso rg ds u f m s g)
         \<and> int (length (ratings_rivales (paso rg ds u f m s g)))
             = partidas_analizadas (paso rg ds u f m s g)"
proof (cases "filtrada f (tc_of g)")
  case True
  with assms show ?thesis by (simp add: paso_filtrada)
next
  case nf: False
  show ?thesis
  proof (cases "rating_rival_de u g < m")
    case True
    with nf assms show ?thesis by (simp add: paso_rating_bajo)
  next
    case False
    with nf assms clasificar_cuenta show ?thesis
      by (simp add: paso_pasa Let_def clasificar_listas analizar_pgn_cuenta registrar_cuenta
          split: option.splits pgn_result.splits)
  qed
qed

lemma recorrer_cuenta:
  assumes "ganadas s + perdidas s + tablas s = partidas_analizadas s"
    and "int (length (rivales s)) = partidas_analizadas s"
    and "int (length (ratings_rivales s)) = partidas_analizadas s"
  shows "ganadas (recorrer rg ds u f m s gs) + perdidas (recorrer rg ds u f m s gs)
           + tablas (recorrer rg ds u f m s gs) = partidas_analizadas (recorrer rg ds u f m s gs)
         \<and> int (length (rivales (recorrer rg ds u f m s gs)))
             = partidas_analizadas (recorrer rg ds u f m s gs)
         \<and> int (length (ratings_rivales (recorrer rg ds u f m s gs)))
             = partidas_analizadas (recorrer rg ds u f m s gs)"
  using assms
proof (induction gs arbitrary: s)
  case Nil
  then show ?case by (simp add: recorrer_def)
next
  case (Cons g gs)
  from paso_cuenta[OF Cons.prems, of rg ds u f m g]
  have "ganadas (recorrer rg ds u f m (paso rg ds u f m s g) gs)
          + perdidas (recorrer rg ds u f m (paso rg ds u f m s g) gs)
          + tablas (recorrer rg ds u f m (paso rg ds u f m s g) gs)
        = partidas_analizadas (recorrer rg ds u f m (paso rg ds u f m s g) gs)
      \<and> int (length (rivales (recorrer rg ds u f m (paso rg ds u f m s g) gs)))
        = partidas_analizadas (recorrer rg ds u f m (paso rg ds u f m s g) gs)
      \<and> int (length (ratings_rivales (recorrer rg ds u f m (paso rg ds u f m s g) gs)))
        = partidas_analizadas (recorrer rg ds u f m (paso rg ds u f m s g) gs)"
    by (intro Cons.IH) simp_all
  then show ?case by (simp add: recorrer_def)
qed

text \<open>
  Claim C1. Whatever the games, the time-control filter and the minimum rating, the
  statistics that \<open>analizar_partidas\<close> builds satisfy
  \<open>ganadas + perdidas + tablas = partidas_analizadas\<close>, and the lists \<open>rivales\<close> and
  \<open>ratings_rivales\<close> both have \<open>partidas_analizadas\<close> elements. (With no games the
  method builds no statistics.)
\<close>

theorem C1_cuenta:
  assumes "partidas a \<noteq> []"
  shows "\<exists>s. stats (analizar_partidas rg ds f m a) = Some s
           \<and> ganadas s + perdidas s + tablas s = partidas_analizadas s
           \<and> int (length (rivales s)) = partidas_analizadas s
           \<and> int (length (ratings_rivales s)) = partidas_analizadas s"
proof -
  have "stats (analizar_partidas rg ds f m a)
          = Some (recorrer rg ds (user a) f m stats_iniciales (partidas a))"
    using assms by (simp add: analizar_partidas_def)
  moreover have "ganadas stats_iniciales + perdidas stats_iniciales + tablas stats_iniciales
      = partidas_analizadas stats_iniciales"
    "int (length (rivales stats_iniciales)) = partidas_analizadas stats_iniciales"
    "int (length (ratings_rivales stats_iniciales)) = partidas_analizadas stats_iniciales"
    by (simp_all add: stats_iniciales_def)
  ultimately show ?thesis
    using recorrer_cuenta[of stats_iniciales rg ds "user a" f m "partidas a"] by simp
qed

theorem C1_cuenta_witness:
  "partidas analizador_ej \<noteq> [] \<and>
   (\<exists>s. stats (analizar_partidas read_game_ej dia_semana_ej None 0 analizador_ej) = Some s
      \<and> ganadas s + perdidas s + tablas s = partidas_analizadas s
      \<and> int (length (rivales s)) = partidas_analizadas s
      \<and> int (length (ratings_rivales s)) = partidas_analizadas s)"
proof -
  have h: "partidas analizador_ej \<noteq> []" by (simp add: analizador_ej_def)
  from C1_cuenta[OF h] h show ?thesis by blast
qed

section \<open>The rating filter\<close>

text \<open>
  Claim C3. A game that passes the time-control filter and whose opponent rating is
  below \<open>min_rating\<close> adds one to the games-played counter of the colour taken for the
  tracked player, and changes no other field of the statistics.
\<close>

theorem C3_rating_bajo:
  assumes "\<not> filtrada filtro_tc (tc_of g)"
    and "rating_rival_de usr g < min_rating"
  shows "paso rg ds usr filtro_tc min_rating s g =
           (if juega_blancas usr g then s\<lparr>blancas_partidas := blancas_partidas s + 1\<rparr>
            else s\<lparr>negras_partidas := negras_partidas s + 1\<rparr>)"
  using assms by (rule paso_rating_bajo)

theorem C3_rating_bajo_witness:
  "\<not> filtrada None (tc_of partida_ej3)
   \<and> rating_rival_de ''user'' partida_ej3 < 1500
   \<and> juega_blancas ''user'' partida_ej3
   \<and> paso read_game_ej dia_semana_ej ''user'' None 1500 stats_iniciales partida_ej3
       = stats_iniciales\<lparr>blancas_partidas := 1\<rparr>"
proof -
  have h1: "\<not> filtrada None (tc_of partida_ej3)" by (simp add: filtrada_def)
  have h2: "rating_rival_de ''user'' partida_ej3 < 1500"
    by (simp add: rating_rival_de_def juega_blancas_def partida_ej3_def rating_of_def
        lower_def lower_char_def)
  have h3: "juega_blancas ''user'' partida_ej3"
    by (simp add: juega_blancas_def partida_ej3_def lower_def lower_char_def)
  have "blancas_partidas stats_iniciales = 0" by (simp add: stats_iniciales_def)
  with C3_rating_bajo[OF h1 h2, of read_game_ej dia_semana_ej stats_iniciales] h1 h2 h3
  show ?thesis by simp
qed

section \<open>Streaks\<close>

lemma clasificar_racha:
  "racha_actual (clasificar b r rr res s) =
     (if res = ''win'' then (if racha_actual s \<ge> 0 then racha_actual s + 1 else 1)
      else if res \<in> set derrotas then (if racha_actual s \<le> 0 then racha_actual s - 1 else - 1)
      else 0)"
  "racha_max_g (clasificar b r rr res s) =
     (if res = ''win'' then max (racha_max_g s) (racha_actual (clasificar b r rr res s))
      else racha_max_g s)"
  "racha_max_p (clasificar b r rr res s) =
     (if res \<noteq> ''win'' \<and> res \<in> set derrotas
      then min (racha_max_p s) (racha_actual (clasificar b r rr res s))
      else racha_max_p s)"
  by (simp_all add: clasificar_def Let_def)

lemma analizar_pgn_racha:
  "racha_actual (analizar_pgn p ms res s) = racha_actual s"
  "racha_max_g (analizar_pgn p ms res s) = racha_max_g s"
  "racha_max_p (analizar_pgn p ms res s) = racha_max_p s"
  by (simp_all add: analizar_pgn_def Let_def)

lemma registrar_racha:
  "racha_actual (registrar tc d res s) = racha_actual s"
  "racha_max_g (registrar tc d res s) = racha_max_g s"
  "racha_max_p (registrar tc d res s) = racha_max_p s"
  by (simp_all add: registrar_def Let_def)

lemma paso_racha_pasa:
  assumes "\<not> filtrada f (tc_of g)" and "\<not> rating_rival_de u g < m"
  shows "racha_actual (paso rg ds u f m s g) =
           racha_actual (clasificar (juega_blancas u g) (rival_de u g) (rating_rival_de u g)
             (resultado_de u g) s)"
    and "racha_max_g (paso rg ds u f m s g) =
           racha_max_g (clasificar (juega_blancas u g) (rival_de u g) (rating_rival_de u g)
             (resultado_de u g) s)"
    and "racha_max_p (paso rg ds u f m s g) =
           racha_max_p (clasificar (juega_blancas u g) (rival_de u g) (rating_rival_de u g)
             (resultado_de u g) s)"
  using assms
  by (simp_all add: paso_pasa Let_def clasificar_racha analizar_pgn_racha registrar_racha
      split: option.splits pgn_result.splits)

lemma paso_racha_no_pasa:
  assumes "filtrada f (tc_of g) \<or> rating_rival_de u g < m"
  shows "racha_actual (paso rg ds u f m s g) = racha_actual s"
    and "racha_max_g (paso rg ds u f m s g) = racha_max_g s"
    and "racha_max_p (paso rg ds u f m s g) = racha_max_p s"
  using assms
  by (cases "filtrada f (tc_of g)"; simp add: paso_filtrada paso_rating_bajo)+

lemma paso_racha_max:
  assumes "racha_ok s"
  shows "racha_max_g (paso rg ds u f m s g)
           = max (racha_max_g s) (racha_actual (paso rg ds u f m s g))"
    and "racha_max_p (paso rg ds u f m s g)
           = min (racha_max_p s) (racha_actual (paso rg ds u f m s g))"
proof -
  show "racha_max_g (paso rg ds u f m s g)
           = max (racha_max_g s) (racha_actual (paso rg ds u f m s g))"
  proof (cases "filtrada f (tc_of g) \<or> rating_rival_de u g < m")
    case True
    with assms show ?thesis by (simp add: paso_racha_no_pasa racha_ok_def)
  next
    case False
    with assms show ?thesis
      by (simp add: paso_racha_pasa clasificar_racha racha_ok_def)
  qed
  show "racha_max_p (paso rg ds u f m s g)
           = min (racha_max_p s) (racha_actual (paso rg ds u f m s g))"
  proof (cases "filtrada f (tc_of g) \<or> rating_rival_de u g < m")
    case True
    with assms show ?thesis by (simp add: paso_racha_no_pasa racha_ok_def)
  next
    case False
    with assms show ?thesis
      by (simp add: paso_racha_pasa clasificar_racha racha_ok_def)
  qed
qed

lemma paso_racha_ok:
  assumes "racha_ok s"
  shows "racha_ok (paso rg ds u f m s g)"
  using assms paso_racha_max[OF assms, of rg ds u f m g]
  by (auto simp add: racha_ok_def)

lemma rachas_vistas_hd:
  "racha_actual s \<in> set (rachas_vistas rg ds u f m s gs)"
  by (cases gs) simp_all

lemma max_reordena:
  fixes a r r' M :: int
  assumes "r \<le> a" and "r' \<le> M"
  shows "max (max a r') M = max a (max r M)"
  using assms by (simp add: max_def)

lemma min_reordena:
  fixes a r r' M :: int
  assumes "a \<le> r" and "M \<le> r'"
  shows "min (min a r') M = min a (min r M)"
  using assms by (simp add: min_def)

lemma recorrer_racha_max:
  assumes "racha_ok s"
  shows "racha_max_g (recorrer rg ds u f m s gs)
           = max (racha_max_g s) (Max (set (rachas_vistas rg ds u f m s gs)))
         \<and> racha_max_p (recorrer rg ds u f m s gs)
           = min (racha_max_p s) (Min (set (rachas_vistas rg ds u f m s gs)))"
  using assms
proof (induction gs arbitrary: s)
  case Nil
  then show ?case by (simp add: recorrer_def racha_ok_def)
next
  case (Cons g gs)
  let ?s' = "paso rg ds u f m s g"
  let ?V = "set (rachas_vistas rg ds u f m ?s' gs)"
  define hi where "hi = Max ?V"
  define lo where "lo = Min ?V"
  have ok': "racha_ok ?s'" using Cons.prems by (rule paso_racha_ok)
  have fin: "finite ?V" and ne: "?V \<noteq> {}"
    using rachas_vistas_hd[of ?s' rg ds u f m gs] by auto
  have hd_le: "racha_actual ?s' \<le> hi" "lo \<le> racha_actual ?s'"
    using rachas_vistas_hd[of ?s' rg ds u f m gs] by (simp_all add: hi_def lo_def)
  have vistas: "set (rachas_vistas rg ds u f m s (g # gs)) = insert (racha_actual s) ?V"
    by simp
  have sel: "Max (insert (racha_actual s) ?V) = max (racha_actual s) hi"
    "Min (insert (racha_actual s) ?V) = min (racha_actual s) lo"
    unfolding hi_def lo_def using fin ne by (rule Max_insert, rule Min_insert)
  have "racha_max_g (recorrer rg ds u f m s (g # gs)) = racha_max_g (recorrer rg ds u f m ?s' gs)"
    by (simp add: recorrer_def)
  also have "\<dots> = max (racha_max_g ?s') hi"
    using Cons.IH[OF ok'] by (simp add: hi_def)
  also have "\<dots> = max (max (racha_max_g s) (racha_actual ?s')) hi"
    using paso_racha_max(1)[OF Cons.prems, of rg ds u f m g] by simp
  also have "\<dots> = max (racha_max_g s) (max (racha_actual s) hi)"
    using Cons.prems hd_le(1) by (intro max_reordena) (simp_all add: racha_ok_def)
  finally have g: "racha_max_g (recorrer rg ds u f m s (g # gs))
      = max (racha_max_g s) (Max (set (rachas_vistas rg ds u f m s (g # gs))))"
    unfolding vistas sel .
  have "racha_max_p (recorrer rg ds u f m s (g # gs)) = racha_max_p (recorrer rg ds u f m ?s' gs)"
    by (simp add: recorrer_def)
  also have "\<dots> = min (racha_max_p ?s') lo"
    using Cons.IH[OF ok'] by (simp add: lo_def)
  also have "\<dots> = min (min (racha_max_p s) (racha_actual ?s')) lo"
    using paso_racha_max(2)[OF Cons.prems, of rg ds u f m g] by simp
  also have "\<dots> = min (racha_max_p s) (min (racha_actual s) lo)"
    using Cons.prems hd_le(2) by (intro min_reordena) (simp_all add: racha_ok_def)
  finally have p: "racha_max_p (recorrer rg ds u f m s (g # gs))
      = min (racha_max_p s) (Min (set (rachas_vistas rg ds u f m s (g # gs))))"
    unfolding vistas sel .
  from g p show ?case by (rule conjI)
qed

text \<open>
  Claim C4. After the iteration for a game that passes both filters, \<open>racha_actual\<close> is
  at least 1 when the result code is \<open>"win"\<close>, at most -1 when it is a losing code, and
  0 for any other code. At the end of the loop \<open>racha_max_g\<close> is the largest and
  \<open>racha_max_p\<close> the smallest value that \<open>racha_actual\<close> has had.
\<close>

theorem C4_rachas:
  "(\<not> filtrada f (tc_of g) \<and> \<not> rating_rival_de u g < m \<longrightarrow>
      (resultado_de u g = ''win'' \<longrightarrow> racha_actual (paso rg ds u f m s g) \<ge> 1) \<and>
      (resultado_de u g \<in> set derrotas \<longrightarrow> racha_actual (paso rg ds u f m s g) \<le> - 1) \<and>
      (resultado_de u g \<noteq> ''win'' \<and> resultado_de u g \<notin> set derrotas \<longrightarrow>
         racha_actual (paso rg ds u f m s g) = 0))
   \<and> (partidas a \<noteq> [] \<longrightarrow>
        (\<exists>s'. stats (analizar_partidas rg ds f m a) = Some s'
           \<and> racha_max_g s'
               = Max (set (rachas_vistas rg ds (user a) f m stats_iniciales (partidas a)))
           \<and> racha_max_p s'
               = Min (set (rachas_vistas rg ds (user a) f m stats_iniciales (partidas a)))))"
proof (intro conjI impI)
  assume pasa: "\<not> filtrada f (tc_of g) \<and> \<not> rating_rival_de u g < m"
  then have eq: "racha_actual (paso rg ds u f m s g) =
      racha_actual (clasificar (juega_blancas u g) (rival_de u g) (rating_rival_de u g)
        (resultado_de u g) s)"
    by (simp add: paso_racha_pasa)
  { assume "resultado_de u g = ''win''"
    then show "1 \<le> racha_actual (paso rg ds u f m s g)"
      by (simp add: eq clasificar_racha) }
  { assume "resultado_de u g \<in> set derrotas"
    then show "racha_actual (paso rg ds u f m s g) \<le> - 1"
      by (auto simp add: eq clasificar_racha derrotas_def) }
  { assume "resultado_de u g \<noteq> ''win'' \<and> resultado_de u g \<notin> set derrotas"
    then show "racha_actual (paso rg ds u f m s g) = 0"
      by (simp add: eq clasificar_racha) }
next
  assume ne: "partidas a \<noteq> []"
  let ?V = "set (rachas_vistas rg ds (user a) f m stats_iniciales (partidas a))"
  have ok: "racha_ok stats_iniciales" by (simp add: racha_ok_def stats_iniciales_def)
  have cero: "(0::int) \<in> ?V"
    using rachas_vistas_hd[of stats_iniciales rg ds "user a" f m "partidas a"]
    by (simp add: stats_iniciales_def)
  have fin: "finite ?V" by simp
  have "0 \<le> Max ?V" "Min ?V \<le> 0" using cero fin by simp_all
  then have "max 0 (Max ?V) = Max ?V" "min 0 (Min ?V) = Min ?V" by simp_all
  moreover have "racha_max_g stats_iniciales = 0" "racha_max_p stats_iniciales = 0"
    by (simp_all add: stats_iniciales_def)
  ultimately have
    "racha_max_g (recorrer rg ds (user a) f m stats_iniciales (partidas a)) = Max ?V"
    "racha_max_p (recorrer rg ds (user a) f m stats_iniciales (partidas a)) = Min ?V"
    using recorrer_racha_max[OF ok, of rg ds "user a" f m "partidas a"] by simp_all
  then show "\<exists>s'. stats (analizar_partidas rg ds f m a) = Some s'
      \<and> racha_max_g s' = Max ?V \<and> racha_max_p s' = Min ?V"
    using ne by (simp add: analizar_partidas_def)
qed

theorem C4_rachas_witness:
  "(\<not> filtrada None (tc_of partida_ej1) \<and> \<not> rating_rival_de ''user'' partida_ej1 < 0)
   \<and> resultado_de ''user'' partida_ej1 = ''win''
   \<and> racha_actual (paso read_game_ej dia_semana_ej ''user'' None 0 stats_iniciales partida_ej1) \<ge> 1
   \<and> partidas analizador_ej \<noteq> []
   \<and> (\<exists>s'. stats (analizar_partidas read_game_ej dia_semana_ej None 0 analizador_ej) = Some s'
        \<and> racha_max_g s'
            = Max (set (rachas_vistas read_game_ej dia_semana_ej (user analizador_ej) None 0
                     stats_iniciales (partidas analizador_ej)))
        \<and> racha_max_p s'
            = Min (set (rachas_vistas read_game_ej dia_semana_ej (user analizador_ej) None 0
                     stats_iniciales (partidas analizador_ej))))"
proof -
  have h1: "\<not> filtrada None (tc_of partida_ej1) \<and> \<not> rating_rival_de ''user'' partida_ej1 < 0"
    by (simp add: filtrada_def rating_rival_de_def juega_blancas_def partida_ej1_def
        rating_of_def lower_def lower_char_def)
  have h2: "resultado_de ''user'' partida_ej1 = ''win''"
    by (simp add: resultado_de_def juega_blancas_def partida_ej1_def lower_def lower_char_def)
  have h3: "partidas analizador_ej \<noteq> []" by (simp add: analizador_ej_def)
  from C4_rachas[of None partida_ej1 "''user''" 0 read_game_ej dia_semana_ej stats_iniciales
      analizador_ej] h1 h2 h3
  show ?thesis by blast
qed

section \<open>Perspective of the tracked player\<close>

lemma clasificar_partidas_color:
  "blancas_partidas (clasificar b r rr res s) = blancas_partidas s"
  "negras_partidas (clasificar b r rr res s) = negras_partidas s"
  by (simp_all add: clasificar_def Let_def)

lemma analizar_pgn_partidas_color:
  "blancas_partidas (analizar_pgn p ms res s) = blancas_partidas s"
  "negras_partidas (analizar_pgn p ms res s) = negras_partidas s"
  by (simp_all add: analizar_pgn_def Let_def)

lemma registrar_partidas_color:
  "blancas_partidas (registrar tc d res s) = blancas_partidas s"
  "negras_partidas (registrar tc d res s) = negras_partidas s"
  by (simp_all add: registrar_def Let_def)

lemma paso_partidas_color:
  assumes "\<not> filtrada f (tc_of g)"
  shows "blancas_partidas (paso rg ds u f m s g)
           = (if juega_blancas u g then blancas_partidas s + 1 else blancas_partidas s)"
    and "negras_partidas (paso rg ds u f m s g)
           = (if juega_blancas u g then negras_partidas s else negras_partidas s + 1)"
  using assms
  by (cases "rating_rival_de u g < m";
      simp add: paso_rating_bajo paso_pasa Let_def clasificar_partidas_color
        analizar_pgn_partidas_color registrar_partidas_color
        split: option.splits pgn_result.splits)+

lemma paso_rivales:
  assumes "\<not> filtrada f (tc_of g)" and "\<not> rating_rival_de u g < m"
  shows "rivales (paso rg ds u f m s g) = rivales s @ [rival_de u g]"
    and "ratings_rivales (paso rg ds u f m s g) = ratings_rivales s @ [rating_rival_de u g]"
  using assms
  by (simp_all add: paso_pasa Let_def clasificar_listas analizar_pgn_cuenta registrar_cuenta
      split: option.splits pgn_result.splits)

section \<open>Openings\<close>

lemma map_of_dict_update:
  "map_of (dict_update d f k kvs) k' =
     (if k' = k then Some (f (case map_of kvs k of None \<Rightarrow> d | Some v \<Rightarrow> v))
      else map_of kvs k')"
  by (induction kvs) auto

lemma counter_get_inc:
  "counter_get (counter_inc k c) k' = (if k' = k then counter_get c k + 1 else counter_get c k')"
  by (simp add: counter_get_def counter_inc_def map_of_dict_update split: option.splits)

lemma resultados_apertura_update:
  "resultados_apertura (dict_update (0, 0) f k d) k' =
     (if k' = k then f (resultados_apertura d k) else resultados_apertura d k')"
  by (simp add: resultados_apertura_def map_of_dict_update split: option.splits)

lemma analizar_pgn_aperturas:
  "aperturas (analizar_pgn p ms res s) =
     (if apertura_key ms \<noteq> [] then counter_inc (apertura_key ms) (aperturas s) else aperturas s)"
  by (simp add: analizar_pgn_def Let_def)

lemma analizar_pgn_resultados:
  "resultados_apertura (aperturas_con_resultados (analizar_pgn p ms res s)) k' =
     (if apertura_key ms \<noteq> [] \<and> k' = apertura_key ms
      then (fst (resultados_apertura (aperturas_con_resultados s) k')
              + (if res = ''win'' then 1 else 0),
            snd (resultados_apertura (aperturas_con_resultados s) k') + 1)
      else resultados_apertura (aperturas_con_resultados s) k')"
  by (simp add: analizar_pgn_def Let_def resultados_apertura_update split: prod.splits)

lemma analizar_pgn_sin_clave:
  "apertura_key ms = [] \<Longrightarrow>
     aperturas_con_resultados (analizar_pgn p ms res s) = aperturas_con_resultados s"
  by (simp add: analizar_pgn_def Let_def)

lemma clasificar_aperturas:
  "aperturas (clasificar b r rr res s) = aperturas s"
  "aperturas_con_resultados (clasificar b r rr res s) = aperturas_con_resultados s"
  by (simp_all add: clasificar_def Let_def)

lemma registrar_aperturas:
  "aperturas (registrar tc d res s) = aperturas s"
  "aperturas_con_resultados (registrar tc d res s) = aperturas_con_resultados s"
  by (simp_all add: registrar_def Let_def)

lemma paso_aperturas:
  assumes "\<not> filtrada f (tc_of g)" and "\<not> rating_rival_de u g < m"
    and "pgn g = Some p" and "rg p = Game ms"
  shows "aperturas (paso rg ds u f m s g) = aperturas (analizar_pgn p ms (resultado_de u g) s)"
    and "aperturas_con_resultados (paso rg ds u f m s g)
           = aperturas_con_resultados (analizar_pgn p ms (resultado_de u g) s)"
  using assms
  by (simp_all add: paso_pasa Let_def registrar_aperturas analizar_pgn_def clasificar_aperturas)

text \<open>
  Claim C8. For a game that passes both filters and whose transcript parses, the opening
  key is the first four moves (all of them when there are fewer) joined by single
  spaces. When the key is not empty, its count in \<open>aperturas\<close> and its \<open>total\<close> in
  \<open>aperturas_con_resultados\<close> grow by one, and its \<open>ganadas\<close> grows by one exactly when
  the result code is \<open>"win"\<close>; the other keys keep their values. When the key is empty
  neither dictionary changes.
\<close>

theorem C8_apertura:
  assumes "\<not> filtrada f (tc_of g)" and "\<not> rating_rival_de u g < m"
    and "pgn g = Some p" and "rg p = Game ms"
  shows "apertura_key ms = join '' '' (take 4 ms)
         \<and> (join '' '' (take 4 ms) \<noteq> [] \<longrightarrow>
              counter_get (aperturas (paso rg ds u f m s g)) (join '' '' (take 4 ms))
                = counter_get (aperturas s) (join '' '' (take 4 ms)) + 1
              \<and> snd (resultados_apertura (aperturas_con_resultados (paso rg ds u f m s g))
                       (join '' '' (take 4 ms)))
                = snd (resultados_apertura (aperturas_con_resultados s)
                         (join '' '' (take 4 ms))) + 1
              \<and> fst (resultados_apertura (aperturas_con_resultados (paso rg ds u f m s g))
                       (join '' '' (take 4 ms)))
                = fst (resultados_apertura (aperturas_con_resultados s)
                         (join '' '' (take 4 ms)))
                  + (if resultado_de u g = ''win'' then 1 else 0))
         \<and> (k' \<noteq> join '' '' (take 4 ms) \<longrightarrow>
              counter_get (aperturas (paso rg ds u f m s g)) k' = counter_get (aperturas s) k'
              \<and> resultados_apertura (aperturas_con_resultados (paso rg ds u f m s g)) k'
                = resultados_apertura (aperturas_con_resultados s) k')
         \<and> (join '' '' (take 4 ms) = [] \<longrightarrow>
              aperturas (paso rg ds u f m s g) = aperturas s
              \<and> aperturas_con_resultados (paso rg ds u f m s g) = aperturas_con_resultados s)"
proof -
  have k: "apertura_key ms = join '' '' (take 4 ms)" by (simp add: apertura_key_def)
  note ap = paso_aperturas[where rg = rg, OF assms]
  show ?thesis
    unfolding ap k[symmetric]
    by (simp add: analizar_pgn_aperturas analizar_pgn_resultados analizar_pgn_sin_clave
        counter_get_inc)
qed

lemma clave_ej: "join '' '' (take 4 (jugadas_ej 20)) = ''g1f3 g8f6 f3g1 f6g8''"
  by code_simp

theorem C8_apertura_witness:
  "\<not> filtrada None (tc_of partida_ej1)
   \<and> \<not> rating_rival_de ''user'' partida_ej1 < 0
   \<and> pgn partida_ej1 = Some ''pgn20''
   \<and> read_game_ej ''pgn20'' = Game (jugadas_ej 20)
   \<and> resultado_de ''user'' partida_ej1 = ''win''
   \<and> counter_get
        (aperturas (paso read_game_ej dia_semana_ej ''user'' None 0 stats_iniciales partida_ej1))
        ''g1f3 g8f6 f3g1 f6g8'' = 1
   \<and> resultados_apertura
        (aperturas_con_resultados
          (paso read_game_ej dia_semana_ej ''user'' None 0 stats_iniciales partida_ej1))
        ''g1f3 g8f6 f3g1 f6g8'' = (1, 1)"
proof -
  have h1: "\<not> filtrada None (tc_of partida_ej1)" by (simp add: filtrada_def)
  have h2: "\<not> rating_rival_de ''user'' partida_ej1 < 0"
    by (simp add: rating_rival_de_def juega_blancas_def partida_ej1_def rating_of_def
        lower_def lower_char_def)
  have h3: "pgn partida_ej1 = Some ''pgn20''" by (simp add: partida_ej1_def)
  have h4: "read_game_ej ''pgn20'' = Game (jugadas_ej 20)" by (simp add: read_game_ej_def)
  have w: "resultado_de ''user'' partida_ej1 = ''win''"
    by (simp add: resultado_de_def juega_blancas_def partida_ej1_def lower_def lower_char_def)
  have i: "counter_get (aperturas stats_iniciales) ''g1f3 g8f6 f3g1 f6g8'' = 0"
    "resultados_apertura (aperturas_con_resultados stats_iniciales) ''g1f3 g8f6 f3g1 f6g8''
       = (0, 0)"
    by (simp_all add: stats_iniciales_def counter_get_def resultados_apertura_def)
  from C8_apertura[where rg = read_game_ej, OF h1 h2 h3 h4,
      of dia_semana_ej stats_iniciales "[]"]
  have "counter_get
        (aperturas (paso read_game_ej dia_semana_ej ''user'' None 0 stats_iniciales partida_ej1))
        ''g1f3 g8f6 f3g1 f6g8'' = 1
     \<and> resultados_apertura
        (aperturas_con_resultados
          (paso read_game_ej dia_semana_ej ''user'' None 0 stats_iniciales partida_ej1))
        ''g1f3 g8f6 f3g1 f6g8'' = (1, 1)"
    by (simp add: clave_ej i w prod_eq_iff)
  with h1 h2 h3 h4 w show ?thesis by blast
qed

section \<open>Shortest and longest game\<close>

lemma clasificar_extremos:
  "partida_corta (clasificar b r rr res s) = partida_corta s"
  "partida_larga (clasificar b r rr res s) = partida_larga s"
  by (simp_all add: clasificar_def Let_def)

lemma registrar_extremos:
  "partida_corta (registrar tc d res s) = partida_corta s"
  "partida_larga (registrar tc d res s) = partida_larga s"
  by (simp_all add: registrar_def Let_def)

lemma analizar_pgn_extremos:
  "partida_corta (analizar_pgn p ms res s) =
     (if int (length ms) < snd (partida_corta s) then (p, int (length ms)) else partida_corta s)"
  "partida_larga (analizar_pgn p ms res s) =
     (if int (length ms) > snd (partida_larga s) then (p, int (length ms)) else partida_larga s)"
  by (simp_all add: analizar_pgn_def Let_def)

lemma paso_extremos_pgn:
  assumes "\<not> filtrada f (tc_of g)" and "\<not> rating_rival_de u g < m"
    and "pgn g = Some p" and "rg p = Game ms"
  shows "partida_corta (paso rg ds u f m s g) =
           (if int (length ms) < snd (partida_corta s) then (p, int (length ms))
            else partida_corta s)"
    and "partida_larga (paso rg ds u f m s g) =
           (if int (length ms) > snd (partida_larga s) then (p, int (length ms))
            else partida_larga s)"
  using assms
  by (simp_all add: paso_pasa Let_def registrar_extremos analizar_pgn_extremos
      clasificar_extremos)

lemma paso_extremos_casos:
  "(partida_corta (paso rg ds u f m s g) = partida_corta s
      \<and> partida_larga (paso rg ds u f m s g) = partida_larga s)
   \<or> (\<exists>p ms. pgn g = Some p \<and> rg p = Game ms
        \<and> partida_corta (paso rg ds u f m s g) =
            (if int (length ms) < snd (partida_corta s) then (p, int (length ms))
             else partida_corta s)
        \<and> partida_larga (paso rg ds u f m s g) =
            (if int (length ms) > snd (partida_larga s) then (p, int (length ms))
             else partida_larga s))"
proof (cases "filtrada f (tc_of g) \<or> rating_rival_de u g < m")
  case True
  then show ?thesis
    by (cases "filtrada f (tc_of g)") (auto simp add: paso_filtrada paso_rating_bajo)
next
  case False
  then have pasa: "\<not> filtrada f (tc_of g)" "\<not> rating_rival_de u g < m" by simp_all
  show ?thesis
  proof (cases "pgn g")
    case None
    with pasa show ?thesis
      by (simp add: paso_pasa Let_def registrar_extremos clasificar_extremos)
  next
    case (Some p)
    show ?thesis
    proof (cases "rg p")
      case (Game ms)
      with Some paso_extremos_pgn[where rg = rg, OF pasa Some Game, of ds s]
      show ?thesis by blast
    qed (use pasa Some in
        \<open>simp_all add: paso_pasa Let_def registrar_extremos clasificar_extremos\<close>)
  qed
qed

lemma paso_extremos_mono:
  "snd (partida_corta (paso rg ds u f m s g)) \<le> snd (partida_corta s)
   \<and> snd (partida_larga s) \<le> snd (partida_larga (paso rg ds u f m s g))"
  using paso_extremos_casos[of rg ds u f m s g]
  by (elim disjE exE conjE) simp_all

lemma recorrer_extremos_mono:
  "snd (partida_corta (recorrer rg ds u f m s gs)) \<le> snd (partida_corta s)
   \<and> snd (partida_larga s) \<le> snd (partida_larga (recorrer rg ds u f m s gs))"
proof (induction gs arbitrary: s)
  case Nil
  show ?case by (simp add: recorrer_def)
next
  case (Cons g gs)
  from Cons.IH[of "paso rg ds u f m s g"] paso_extremos_mono[of rg ds u f m s g]
  show ?case by (simp add: recorrer_def)
qed

lemma paso_empate:
  assumes "snd (partida_corta s) \<le> int n" and "int n \<le> snd (partida_larga s)"
    and "pgn g = Some p" and "rg p = Game ms" and "length ms = n"
  shows "partida_corta (paso rg ds u f m s g) = partida_corta s"
    and "partida_larga (paso rg ds u f m s g) = partida_larga s"
  using paso_extremos_casos[of rg ds u f m s g] assms
  by (elim disjE exE conjE; simp)+

lemma recorrer_append:
  "recorrer rg ds u f m s (xs @ ys) = recorrer rg ds u f m (recorrer rg ds u f m s xs) ys"
  by (simp add: recorrer_def)

text \<open>
  Claim C9. The shortest and the longest game are replaced only under the strict
  comparisons \<open><\<close> and \<open>>\<close> of the half-move counts. Hence, once a parsed game that
  passes both filters has been processed, a later parsed game with the same number of
  half-moves replaces neither record: the game found first stays.
\<close>

theorem C9_empate_extremos:
  assumes "\<not> filtrada f (tc_of g1)" and "\<not> rating_rival_de u g1 < m"
    and "pgn g1 = Some p1" and "rg p1 = Game ms1"
    and "pgn g2 = Some p2" and "rg p2 = Game ms2"
    and "length ms2 = length ms1"
  shows "partida_corta (paso rg ds u f m s g1) =
           (if int (length ms1) < snd (partida_corta s) then (p1, int (length ms1))
            else partida_corta s)
         \<and> partida_larga (paso rg ds u f m s g1) =
           (if int (length ms1) > snd (partida_larga s) then (p1, int (length ms1))
            else partida_larga s)
         \<and> partida_corta (recorrer rg ds u f m s (pre @ g1 # mid @ [g2]))
           = partida_corta (recorrer rg ds u f m s (pre @ g1 # mid))
         \<and> partida_larga (recorrer rg ds u f m s (pre @ g1 # mid @ [g2]))
           = partida_larga (recorrer rg ds u f m s (pre @ g1 # mid))"
proof -
  let ?s0 = "recorrer rg ds u f m s pre"
  let ?s1 = "paso rg ds u f m ?s0 g1"
  let ?s2 = "recorrer rg ds u f m ?s1 mid"
  note e1 = paso_extremos_pgn[where rg = rg, OF assms(1-4)]
  have "snd (partida_corta ?s1) \<le> int (length ms1)"
    "int (length ms1) \<le> snd (partida_larga ?s1)"
    by (simp_all add: e1)
  with recorrer_extremos_mono[of rg ds u f m ?s1 mid]
  have cota: "snd (partida_corta ?s2) \<le> int (length ms1)"
    "int (length ms1) \<le> snd (partida_larga ?s2)"
    by simp_all
  have antes: "recorrer rg ds u f m s (pre @ g1 # mid) = ?s2"
    by (simp add: recorrer_def)
  have despues: "recorrer rg ds u f m s (pre @ g1 # mid @ [g2]) = paso rg ds u f m ?s2 g2"
    by (simp add: recorrer_def)
  from paso_empate[where rg = rg, OF cota assms(5,6,7)] e1
  show ?thesis unfolding antes despues by simp
qed

section \<open>The fields set by the classification and by the bookkeeping\<close>

lemma clasificar_campos:
  "ganadas (clasificar b r rr res s) = (if res = ''win'' then ganadas s + 1 else ganadas s)"
  "perdidas (clasificar b r rr res s) =
     (if res \<noteq> ''win'' \<and> res \<in> set derrotas then perdidas s + 1 else perdidas s)"
  "tablas (clasificar b r rr res s) =
     (if res \<noteq> ''win'' \<and> res \<notin> set derrotas then tablas s + 1 else tablas s)"
  "mejor_victoria (clasificar b r rr res s) =
     (if res = ''win'' \<and> rr > snd (mejor_victoria s) then (r, rr) else mejor_victoria s)"
  "peor_derrota (clasificar b r rr res s) =
     (if res \<noteq> ''win'' \<and> res \<in> set derrotas \<and> rr < snd (peor_derrota s) then (r, rr)
      else peor_derrota s)"
  "tablas_por_tipo (clasificar b r rr res s) =
     (if res \<noteq> ''win'' \<and> res \<notin> set derrotas then counter_inc res (tablas_por_tipo s)
      else tablas_por_tipo s)"
  "time_controls (clasificar b r rr res s) = time_controls s"
  "juegos_por_dia (clasificar b r rr res s) = juegos_por_dia s"
  "resultados_dia (clasificar b r rr res s) = resultados_dia s"
  by (simp_all add: clasificar_def Let_def)

lemma analizar_pgn_campos:
  "mejor_victoria (analizar_pgn p ms res s) = mejor_victoria s"
  "peor_derrota (analizar_pgn p ms res s) = peor_derrota s"
  "tablas_por_tipo (analizar_pgn p ms res s) = tablas_por_tipo s"
  "time_controls (analizar_pgn p ms res s) = time_controls s"
  "juegos_por_dia (analizar_pgn p ms res s) = juegos_por_dia s"
  "resultados_dia (analizar_pgn p ms res s) = resultados_dia s"
  by (simp_all add: analizar_pgn_def Let_def)

lemma registrar_campos:
  "mejor_victoria (registrar tc d res s) = mejor_victoria s"
  "peor_derrota (registrar tc d res s) = peor_derrota s"
  "tablas_por_tipo (registrar tc d res s) = tablas_por_tipo s"
  "time_controls (registrar tc d res s) = counter_inc tc (time_controls s)"
  "juegos_por_dia (registrar tc d res s) = counter_inc d (juegos_por_dia s)"
  "resultados_dia (registrar tc d res s) =
     dict_update [] (counter_inc (clave_resultado res)) d (resultados_dia s)"
  by (simp_all add: registrar_def Let_def)

lemma paso_analizadas:
  "partidas_analizadas (paso rg ds u f m s g) =
     (if \<not> filtrada f (tc_of g) \<and> \<not> rating_rival_de u g < m then partidas_analizadas s + 1
      else partidas_analizadas s)"
proof (cases "filtrada f (tc_of g)")
  case True
  then show ?thesis by (simp add: paso_filtrada)
next
  case False
  then show ?thesis
    by (cases "rating_rival_de u g < m")
      (simp_all add: paso_rating_bajo paso_pasa Let_def clasificar_listas analizar_pgn_cuenta
        registrar_cuenta split: option.splits pgn_result.splits)
qed

lemma paso_clasificacion:
  assumes "\<not> filtrada f (tc_of g)" and "\<not> rating_rival_de u g < m"
  shows "ganadas (paso rg ds u f m s g) =
           (if resultado_de u g = ''win'' then ganadas s + 1 else ganadas s)"
    and "perdidas (paso rg ds u f m s g) =
           (if resultado_de u g \<noteq> ''win'' \<and> resultado_de u g \<in> set derrotas
            then perdidas s + 1 else perdidas s)"
    and "tablas (paso rg ds u f m s g) =
           (if resultado_de u g \<noteq> ''win'' \<and> resultado_de u g \<notin> set derrotas
            then tablas s + 1 else tablas s)"
    and "mejor_victoria (paso rg ds u f m s g) =
           (if resultado_de u g = ''win'' \<and> rating_rival_de u g > snd (mejor_victoria s)
            then (rival_de u g, rating_rival_de u g) else mejor_victoria s)"
    and "peor_derrota (paso rg ds u f m s g) =
           (if resultado_de u g \<noteq> ''win'' \<and> resultado_de u g \<in> set derrotas
               \<and> rating_rival_de u g < snd (peor_derrota s)
            then (rival_de u g, rating_rival_de u g) else peor_derrota s)"
    and "tablas_por_tipo (paso rg ds u f m s g) =
           (if resultado_de u g \<noteq> ''win'' \<and> resultado_de u g \<notin> set derrotas
            then counter_inc (resultado_de u g) (tablas_por_tipo s) else tablas_por_tipo s)"
  using assms
  by (simp_all add: paso_pasa Let_def clasificar_campos analizar_pgn_campos registrar_campos
      analizar_pgn_cuenta registrar_cuenta split: option.splits pgn_result.splits)

lemma paso_registro:
  assumes "\<not> filtrada f (tc_of g)" and "\<not> rating_rival_de u g < m"
    and "pgn g = None \<or> (\<exists>p. pgn g = Some p \<and> rg p \<noteq> ParseError)"
  shows "time_controls (paso rg ds u f m s g) = counter_inc (tc_of g) (time_controls s)"
    and "juegos_por_dia (paso rg ds u f m s g) =
           counter_inc (ds (case end_time g of None \<Rightarrow> 0 | Some t \<Rightarrow> t)) (juegos_por_dia s)"
    and "resultados_dia (paso rg ds u f m s g) =
           dict_update [] (counter_inc (clave_resultado (resultado_de u g)))
             (ds (case end_time g of None \<Rightarrow> 0 | Some t \<Rightarrow> t)) (resultados_dia s)"
  using assms
  by (auto simp add: paso_pasa Let_def clasificar_campos analizar_pgn_campos registrar_campos
      split: option.splits pgn_result.splits)

lemma paso_parse_error:
  assumes "\<not> filtrada f (tc_of g)" and "\<not> rating_rival_de u g < m"
    and "pgn g = Some p" and "rg p = ParseError"
  shows "time_controls (paso rg ds u f m s g) = time_controls s"
    and "juegos_por_dia (paso rg ds u f m s g) = juegos_por_dia s"
    and "resultados_dia (paso rg ds u f m s g) = resultados_dia s"
  using assms by (simp_all add: paso_pasa Let_def clasificar_campos)

section \<open>The three-game scenario\<close>

lemma lower_ej:
  "lower ''User'' = ''user''" "lower ''rival1'' = ''rival1''" "lower ''rival2'' = ''rival2''"
  "lower ''rival3'' = ''rival3''" "lower ''rival4'' = ''rival4''"
  by (simp_all add: lower_def lower_char_def)

lemma partida_ej1_vista:
  "tc_of partida_ej1 = ''600''" "juega_blancas ''user'' partida_ej1"
  "rival_de ''user'' partida_ej1 = ''rival1''" "rating_rival_de ''user'' partida_ej1 = 1500"
  "resultado_de ''user'' partida_ej1 = ''win''" "pgn partida_ej1 = Some ''pgn20''"
  by (simp_all add: partida_ej1_def tc_of_def juega_blancas_def rival_de_def rating_rival_de_def
      resultado_de_def rating_of_def lower_ej)

lemma partida_ej2_vista:
  "tc_of partida_ej2 = ''600''" "\<not> juega_blancas ''user'' partida_ej2"
  "rival_de ''user'' partida_ej2 = ''rival2''" "rating_rival_de ''user'' partida_ej2 = 1600"
  "resultado_de ''user'' partida_ej2 = ''resigned''" "pgn partida_ej2 = Some ''pgn30''"
  by (simp_all add: partida_ej2_def tc_of_def juega_blancas_def rival_de_def rating_rival_de_def
      resultado_de_def rating_of_def lower_ej)

lemma partida_ej3_vista:
  "tc_of partida_ej3 = ''180''" "juega_blancas ''user'' partida_ej3"
  "rival_de ''user'' partida_ej3 = ''rival3''" "rating_rival_de ''user'' partida_ej3 = 1400"
  "resultado_de ''user'' partida_ej3 = ''agreed''" "pgn partida_ej3 = Some ''pgn40''"
  by (simp_all add: partida_ej3_def tc_of_def juega_blancas_def rival_de_def rating_rival_de_def
      resultado_de_def rating_of_def lower_ej)

lemma partida_ej4_vista:
  "tc_of partida_ej4 = ''600''" "juega_blancas ''user'' partida_ej4"
  "rival_de ''user'' partida_ej4 = ''rival4''" "rating_rival_de ''user'' partida_ej4 = 1450"
  "resultado_de ''user'' partida_ej4 = ''timeout''" "pgn partida_ej4 = Some ''pgn20b''"
  by (simp_all add: partida_ej4_def tc_of_def juega_blancas_def rival_de_def rating_rival_de_def
      resultado_de_def rating_of_def lower_ej)

lemma analizador_ej_vista:
  "user analizador_ej = ''user''"
  "partidas analizador_ej = [partida_ej1, partida_ej2, partida_ej3]"
  by (simp_all add: analizador_ej_def init_def lower_ej)

lemma sin_filtro: "\<not> filtrada None tc"
  by (simp add: filtrada_def)

text \<open>
  Claim C5. With no time-control filter and minimum rating 0, the three games of the
  scenario (a win with white against rival1, 1500, in 20 half-moves at "600"; a loss
  with black against rival2, 1600, in 30 half-moves at "600"; a draw by "agreed" with
  white against rival3, 1400, in 40 half-moves at "180") give 1 win, 1 loss, 1 draw,
  3 games analysed, a global win rate of 33, extreme streaks 1 and -1, best win
  (rival1, 1500), worst loss (rival2, 1600), shortest game 20 and longest 40
  half-moves, time controls {"600": 2, "180": 1} and draw types {"agreed": 1}; whatever
  the moves of the three transcripts and the weekdays of the games.
\<close>

theorem C5_escenario:
  assumes "rg ''pgn20'' = Game ms1" and "length ms1 = 20"
    and "rg ''pgn30'' = Game ms2" and "length ms2 = 30"
    and "rg ''pgn40'' = Game ms3" and "length ms3 = 40"
  shows "\<exists>s r. stats (analizar_partidas rg ds None 0 analizador_ej) = Some s
           \<and> generar_reporte (analizar_partidas rg ds None 0 analizador_ej) = Some r
           \<and> ganadas s = 1 \<and> perdidas s = 1 \<and> tablas s = 1 \<and> partidas_analizadas s = 3
           \<and> winrate r = 33
           \<and> racha_max_g s = 1 \<and> racha_max_p s = - 1
           \<and> mejor_victoria s = (''rival1'', 1500) \<and> peor_derrota s = (''rival2'', 1600)
           \<and> snd (partida_corta s) = 20 \<and> snd (partida_larga s) = 40
           \<and> time_controls s = [(''600'', 2), (''180'', 1)]
           \<and> tablas_por_tipo s = [(''agreed'', 1)]"
proof -
  let ?paso = "paso rg ds ''user'' None 0"
  let ?s1 = "?paso stats_iniciales partida_ej1"
  let ?s2 = "?paso ?s1 partida_ej2"
  let ?s3 = "?paso ?s2 partida_ej3"
  have p1: "\<not> rating_rival_de ''user'' partida_ej1 < 0"
    and p2: "\<not> rating_rival_de ''user'' partida_ej2 < 0"
    and p3: "\<not> rating_rival_de ''user'' partida_ej3 < 0"
    by (simp_all add: partida_ej1_vista partida_ej2_vista partida_ej3_vista)
  have r1: "pgn partida_ej1 = None \<or> (\<exists>p. pgn partida_ej1 = Some p \<and> rg p \<noteq> ParseError)"
    and r2: "pgn partida_ej2 = None \<or> (\<exists>p. pgn partida_ej2 = Some p \<and> rg p \<noteq> ParseError)"
    and r3: "pgn partida_ej3 = None \<or> (\<exists>p. pgn partida_ej3 = Some p \<and> rg p \<noteq> ParseError)"
    using assms by (simp_all add: partida_ej1_vista partida_ej2_vista partida_ej3_vista)
  note campos1 = paso_clasificacion[OF sin_filtro p1] paso_racha_pasa[OF sin_filtro p1]
    paso_extremos_pgn[where rg = rg, OF sin_filtro p1 partida_ej1_vista(6) assms(1)]
    paso_registro(1)[where rg = rg, OF sin_filtro p1 r1]
    paso_analizadas[where g = partida_ej1]
  note campos2 = paso_clasificacion[OF sin_filtro p2] paso_racha_pasa[OF sin_filtro p2]
    paso_extremos_pgn[where rg = rg, OF sin_filtro p2 partida_ej2_vista(6) assms(3)]
    paso_registro(1)[where rg = rg, OF sin_filtro p2 r2]
    paso_analizadas[where g = partida_ej2]
  note campos3 = paso_clasificacion[OF sin_filtro p3] paso_racha_pasa[OF sin_filtro p3]
    paso_extremos_pgn[where rg = rg, OF sin_filtro p3 partida_ej3_vista(6) assms(5)]
    paso_registro(1)[where rg = rg, OF sin_filtro p3 r3]
    paso_analizadas[where g = partida_ej3]
  have s1: "ganadas ?s1 = 1" "perdidas ?s1 = 0" "tablas ?s1 = 0" "partidas_analizadas ?s1 = 1"
    "racha_actual ?s1 = 1" "racha_max_g ?s1 = 1" "racha_max_p ?s1 = 0"
    "mejor_victoria ?s1 = (''rival1'', 1500)" "peor_derrota ?s1 = ([], 9999)"
    "partida_corta ?s1 = (''pgn20'', 20)" "partida_larga ?s1 = (''pgn20'', 20)"
    "time_controls ?s1 = [(''600'', 1)]" "tablas_por_tipo ?s1 = []"
    by (simp_all add: campos1 clasificar_racha partida_ej1_vista sin_filtro assms
        stats_iniciales_def counter_inc_def)
  have s2: "ganadas ?s2 = 1" "perdidas ?s2 = 1" "tablas ?s2 = 0" "partidas_analizadas ?s2 = 2"
    "racha_actual ?s2 = - 1" "racha_max_g ?s2 = 1" "racha_max_p ?s2 = - 1"
    "mejor_victoria ?s2 = (''rival1'', 1500)" "peor_derrota ?s2 = (''rival2'', 1600)"
    "partida_corta ?s2 = (''pgn20'', 20)" "partida_larga ?s2 = (''pgn30'', 30)"
    "time_controls ?s2 = [(''600'', 2)]" "tablas_por_tipo ?s2 = []"
    by (simp_all add: campos2 clasificar_racha partida_ej2_vista sin_filtro assms s1
        derrotas_def counter_inc_def)
  have s3: "ganadas ?s3 = 1" "perdidas ?s3 = 1" "tablas ?s3 = 1" "partidas_analizadas ?s3 = 3"
    "racha_max_g ?s3 = 1" "racha_max_p ?s3 = - 1"
    "mejor_victoria ?s3 = (''rival1'', 1500)" "peor_derrota ?s3 = (''rival2'', 1600)"
    "partida_corta ?s3 = (''pgn20'', 20)" "partida_larga ?s3 = (''pgn40'', 40)"
    "time_controls ?s3 = [(''600'', 2), (''180'', 1)]" "tablas_por_tipo ?s3 = [(''agreed'', 1)]"
    by (simp_all add: campos3 clasificar_racha partida_ej3_vista sin_filtro assms s2
        derrotas_def counter_inc_def)
  have st: "stats (analizar_partidas rg ds None 0 analizador_ej) = Some ?s3"
    by (simp add: analizar_partidas_def analizador_ej_vista recorrer_def)
  have rep: "map_option winrate (generar_reporte (analizar_partidas rg ds None 0 analizador_ej))
      = Some 33"
    by (simp add: generar_reporte_def st s3)
  then obtain r where "generar_reporte (analizar_partidas rg ds None 0 analizador_ej) = Some r"
    and "winrate r = 33"
    by auto
  with st s3 show ?thesis by simp
qed

theorem C5_escenario_witness:
  "read_game_ej ''pgn20'' = Game (jugadas_ej 20) \<and> length (jugadas_ej 20) = 20
   \<and> read_game_ej ''pgn30'' = Game (jugadas_ej 30) \<and> length (jugadas_ej 30) = 30
   \<and> read_game_ej ''pgn40'' = Game (jugadas_ej 40) \<and> length (jugadas_ej 40) = 40
   \<and> (\<exists>s r. stats (analizar_partidas read_game_ej dia_semana_ej None 0 analizador_ej) = Some s
         \<and> generar_reporte (analizar_partidas read_game_ej dia_semana_ej None 0 analizador_ej)
             = Some r
         \<and> ganadas s = 1 \<and> perdidas s = 1 \<and> tablas s = 1 \<and> partidas_analizadas s = 3
         \<and> winrate r = 33
         \<and> racha_max_g s = 1 \<and> racha_max_p s = - 1
         \<and> mejor_victoria s = (''rival1'', 1500) \<and> peor_derrota s = (''rival2'', 1600)
         \<and> snd (partida_corta s) = 20 \<and> snd (partida_larga s) = 40
         \<and> time_controls s = [(''600'', 2), (''180'', 1)]
         \<and> tablas_por_tipo s = [(''agreed'', 1)])"
proof -
  have g: "read_game_ej ''pgn20'' = Game (jugadas_ej 20)"
    "read_game_ej ''pgn30'' = Game (jugadas_ej 30)"
    "read_game_ej ''pgn40'' = Game (jugadas_ej 40)"
    by (simp_all add: read_game_ej_def)
  have l: "length (jugadas_ej 20) = 20" "length (jugadas_ej 30) = 30"
    "length (jugadas_ej 40) = 40"
    by code_simp+
  from C5_escenario[OF g(1) l(1) g(2) l(2) g(3) l(3), of dia_semana_ej] g l
  show ?thesis by blast
qed

section \<open>A tie of half-move counts in the concrete run\<close>

theorem C9_empate_extremos_witness:
  "\<not> filtrada None (tc_of partida_ej1) \<and> \<not> rating_rival_de ''user'' partida_ej1 < 0
   \<and> pgn partida_ej1 = Some ''pgn20'' \<and> read_game_ej ''pgn20'' = Game (jugadas_ej 20)
   \<and> pgn partida_ej4 = Some ''pgn20b'' \<and> read_game_ej ''pgn20b'' = Game (jugadas_ej_b 20)
   \<and> length (jugadas_ej_b 20) = length (jugadas_ej 20)
   \<and> partida_corta (recorrer read_game_ej dia_semana_ej ''user'' None 0 stats_iniciales
        [partida_ej1, partida_ej2, partida_ej4]) = (''pgn20'', 20)
   \<and> partida_larga (recorrer read_game_ej dia_semana_ej ''user'' None 0 stats_iniciales
        [partida_ej1, partida_ej2, partida_ej4]) = (''pgn30'', 30)"
proof -
  have h2: "\<not> rating_rival_de ''user'' partida_ej1 < 0" by (simp add: partida_ej1_vista)
  have g: "read_game_ej ''pgn20'' = Game (jugadas_ej 20)"
    "read_game_ej ''pgn20b'' = Game (jugadas_ej_b 20)"
    by (simp_all add: read_game_ej_def)
  have l: "length (jugadas_ej_b 20) = length (jugadas_ej 20)" by code_simp
  have antes: "partida_corta (recorrer read_game_ej dia_semana_ej ''user'' None 0 stats_iniciales
        [partida_ej1, partida_ej2]) = (''pgn20'', 20)"
    "partida_larga (recorrer read_game_ej dia_semana_ej ''user'' None 0 stats_iniciales
        [partida_ej1, partida_ej2]) = (''pgn30'', 30)"
    by code_simp+
  from C9_empate_extremos[where rg = read_game_ej and pre = "[]" and mid = "[partida_ej2]",
      OF sin_filtro h2 partida_ej1_vista(6) g(1) partida_ej4_vista(6) g(2) l,
      of dia_semana_ej stats_iniciales]
  have "partida_corta (recorrer read_game_ej dia_semana_ej ''user'' None 0 stats_iniciales
        [partida_ej1, partida_ej2, partida_ej4]) = (''pgn20'', 20)
     \<and> partida_larga (recorrer read_game_ej dia_semana_ej ''user'' None 0 stats_iniciales
        [partida_ej1, partida_ej2, partida_ej4]) = (''pgn30'', 30)"
    by (simp add: antes)
  with sin_filtro h2 partida_ej1_vista(6) partida_ej4_vista(6) g l show ?thesis by blast
qed

section \<open>A transcript that does not parse\<close>


section \<open>No games\<close>

text \<open>
  Claim C6, as stated: with no games the aggregation produces statistics whose
  \<open>partidas_analizadas\<close> is 0. It does not: on a new object the statistics stay the
  empty dictionary.
\<close>

theorem C6_sin_partidas_counterexample:
  "stats (analizar_partidas read_game_ej dia_semana_ej None 0 (init ''User'')) = None"
  by code_simp

text \<open>
  Claim C6, amended. With no games \<open>analizar_partidas\<close> is not an error: it returns at
  once and leaves the object as it was, so a new object keeps the empty dictionary as
  its statistics. \<open>generar_reporte\<close> derives no rate and gives no report exactly when the
  statistics are empty or their \<open>partidas_analizadas\<close> is 0.
\<close>

theorem C6_sin_partidas:
  "(partidas a = [] \<longrightarrow> analizar_partidas rg ds f m a = a)
   \<and> analizar_partidas rg ds f m (init name) = init name
   \<and> stats (init name) = None
   \<and> generar_reporte (analizar_partidas rg ds f m (init name)) = None
   \<and> (generar_reporte b = None)
       = (case stats b of None \<Rightarrow> True | Some s \<Rightarrow> partidas_analizadas s = 0)"
  by (simp add: analizar_partidas_def init_def generar_reporte_def split: option.splits)

theorem C6_sin_partidas_witness:
  "partidas (init ''User'') = []
   \<and> analizar_partidas read_game_ej dia_semana_ej None 0 (init ''User'') = init ''User''
   \<and> generar_reporte (analizar_partidas read_game_ej dia_semana_ej None 0 (init ''User'')) = None"
proof -
  have h: "partidas (init ''User'') = []" by (simp add: init_def)
  from C6_sin_partidas[of "init ''User''" read_game_ej dia_semana_ej None 0 "''User''"] h
  show ?thesis by blast
qed

section \<open>The time-control filter\<close>











section \<open>A game in which the tracked player is neither side\<close>

lemma clasificar_g_color:
  "blancas_g (clasificar b r rr res s) =
     (if res = ''win'' \<and> b then blancas_g s + 1 else blancas_g s)"
  "negras_g (clasificar b r rr res s) =
     (if res = ''win'' \<and> \<not> b then negras_g s + 1 else negras_g s)"
  by (simp_all add: clasificar_def Let_def)

lemma analizar_pgn_g_color:
  "blancas_g (analizar_pgn p ms res s) = blancas_g s"
  "negras_g (analizar_pgn p ms res s) = negras_g s"
  by (simp_all add: analizar_pgn_def Let_def)

lemma registrar_g_color:
  "blancas_g (registrar tc d res s) = blancas_g s"
  "negras_g (registrar tc d res s) = negras_g s"
  by (simp_all add: registrar_def Let_def)

lemma paso_g_color:
  assumes "\<not> filtrada f (tc_of g)" and "\<not> rating_rival_de u g < m"
  shows "blancas_g (paso rg ds u f m s g) =
           (if resultado_de u g = ''win'' \<and> juega_blancas u g then blancas_g s + 1
            else blancas_g s)"
    and "negras_g (paso rg ds u f m s g) =
           (if resultado_de u g = ''win'' \<and> \<not> juega_blancas u g then negras_g s + 1
            else negras_g s)"
  using assms
  by (simp_all add: paso_pasa Let_def clasificar_g_color analizar_pgn_g_color registrar_g_color
      split: option.splits pgn_result.splits)

text \<open>
  Claim C10. When the tracked user name, lower-cased, is neither the white nor the black
  player's, the game is processed as if the tracked player had played black: the result
  is that of the same game with the tracked name as black player; the black games-played
  counter is the one incremented; the opponent and the opponent rating that go into the
  lists and into the best win and the worst loss are white's; and the result code that
  decides win, loss or draw, the streak, the wins with black, the draw type and the
  weekday outcome is black's.
\<close>

theorem C10_ni_blancas_ni_negras:
  assumes "lower (username (white g)) \<noteq> lower name"
    and "lower (username (black g)) \<noteq> lower name"
  shows "paso rg ds (user (init name)) f m s g
           = paso rg ds (user (init name)) f m s (g\<lparr>black := (black g)\<lparr>username := name\<rparr>\<rparr>)
         \<and> rival_de (user (init name)) g = lower (username (white g))
         \<and> rating_rival_de (user (init name)) g = rating_of (white g)
         \<and> resultado_de (user (init name)) g = result (black g)
         \<and> (\<not> filtrada f (tc_of g) \<longrightarrow>
              negras_partidas (paso rg ds (user (init name)) f m s g) = negras_partidas s + 1
              \<and> blancas_partidas (paso rg ds (user (init name)) f m s g) = blancas_partidas s)
         \<and> (\<not> filtrada f (tc_of g) \<and> \<not> rating_of (white g) < m \<longrightarrow>
              rivales (paso rg ds (user (init name)) f m s g)
                = rivales s @ [lower (username (white g))]
              \<and> ratings_rivales (paso rg ds (user (init name)) f m s g)
                = ratings_rivales s @ [rating_of (white g)]
              \<and> ganadas (paso rg ds (user (init name)) f m s g)
                = (if result (black g) = ''win'' then ganadas s + 1 else ganadas s)
              \<and> perdidas (paso rg ds (user (init name)) f m s g)
                = (if result (black g) \<noteq> ''win'' \<and> result (black g) \<in> set derrotas
                   then perdidas s + 1 else perdidas s)
              \<and> tablas (paso rg ds (user (init name)) f m s g)
                = (if result (black g) \<noteq> ''win'' \<and> result (black g) \<notin> set derrotas
                   then tablas s + 1 else tablas s)
              \<and> tablas_por_tipo (paso rg ds (user (init name)) f m s g)
                = (if result (black g) \<noteq> ''win'' \<and> result (black g) \<notin> set derrotas
                   then counter_inc (result (black g)) (tablas_por_tipo s)
                   else tablas_por_tipo s)
              \<and> racha_actual (paso rg ds (user (init name)) f m s g)
                = (if result (black g) = ''win''
                   then (if racha_actual s \<ge> 0 then racha_actual s + 1 else 1)
                   else if result (black g) \<in> set derrotas
                   then (if racha_actual s \<le> 0 then racha_actual s - 1 else - 1)
                   else 0)
              \<and> negras_g (paso rg ds (user (init name)) f m s g)
                = (if result (black g) = ''win'' then negras_g s + 1 else negras_g s)
              \<and> blancas_g (paso rg ds (user (init name)) f m s g) = blancas_g s
              \<and> mejor_victoria (paso rg ds (user (init name)) f m s g)
                = (if result (black g) = ''win'' \<and> rating_of (white g) > snd (mejor_victoria s)
                   then (lower (username (white g)), rating_of (white g))
                   else mejor_victoria s)
              \<and> peor_derrota (paso rg ds (user (init name)) f m s g)
                = (if result (black g) \<noteq> ''win'' \<and> result (black g) \<in> set derrotas
                      \<and> rating_of (white g) < snd (peor_derrota s)
                   then (lower (username (white g)), rating_of (white g))
                   else peor_derrota s)
              \<and> (pgn g = None \<or> (\<exists>p. pgn g = Some p \<and> rg p \<noteq> ParseError) \<longrightarrow>
                   resultados_dia (paso rg ds (user (init name)) f m s g)
                     = dict_update [] (counter_inc (clave_resultado (result (black g))))
                         (ds (case end_time g of None \<Rightarrow> 0 | Some t \<Rightarrow> t))
                         (resultados_dia s)))"
proof -
  have u: "user (init name) = lower name" by (simp add: init_def)
  have nb: "\<not> juega_blancas (lower name) g"
    using assms(1) by (simp add: juega_blancas_def)
  have per: "rival_de (lower name) g = lower (username (white g))"
    "rating_rival_de (lower name) g = rating_of (white g)"
    "resultado_de (lower name) g = result (black g)"
    using nb by (simp_all add: rival_de_def rating_rival_de_def resultado_de_def)
  have como_negras: "paso rg ds (lower name) f m s g
      = paso rg ds (lower name) f m s (g\<lparr>black := (black g)\<lparr>username := name\<rparr>\<rparr>)"
    using assms(1)
    by (simp add: paso_def Let_def tc_of_def rating_of_def
        split: option.splits pgn_result.splits)
  have color: "\<not> filtrada f (tc_of g) \<longrightarrow>
      negras_partidas (paso rg ds (lower name) f m s g) = negras_partidas s + 1
      \<and> blancas_partidas (paso rg ds (lower name) f m s g) = blancas_partidas s"
    using nb by (simp add: paso_partidas_color)
  have campos: "\<not> filtrada f (tc_of g) \<and> \<not> rating_of (white g) < m \<longrightarrow>
      rivales (paso rg ds (lower name) f m s g) = rivales s @ [lower (username (white g))]
      \<and> ratings_rivales (paso rg ds (lower name) f m s g)
          = ratings_rivales s @ [rating_of (white g)]
      \<and> ganadas (paso rg ds (lower name) f m s g)
          = (if result (black g) = ''win'' then ganadas s + 1 else ganadas s)
      \<and> perdidas (paso rg ds (lower name) f m s g)
          = (if result (black g) \<noteq> ''win'' \<and> result (black g) \<in> set derrotas
             then perdidas s + 1 else perdidas s)
      \<and> tablas (paso rg ds (lower name) f m s g)
          = (if result (black g) \<noteq> ''win'' \<and> result (black g) \<notin> set derrotas
             then tablas s + 1 else tablas s)
      \<and> tablas_por_tipo (paso rg ds (lower name) f m s g)
          = (if result (black g) \<noteq> ''win'' \<and> result (black g) \<notin> set derrotas
             then counter_inc (result (black g)) (tablas_por_tipo s)
             else tablas_por_tipo s)
      \<and> racha_actual (paso rg ds (lower name) f m s g)
          = (if result (black g) = ''win''
             then (if racha_actual s \<ge> 0 then racha_actual s + 1 else 1)
             else if result (black g) \<in> set derrotas
             then (if racha_actual s \<le> 0 then racha_actual s - 1 else - 1)
             else 0)
      \<and> negras_g (paso rg ds (lower name) f m s g)
          = (if result (black g) = ''win'' then negras_g s + 1 else negras_g s)
      \<and> blancas_g (paso rg ds (lower name) f m s g) = blancas_g s
      \<and> mejor_victoria (paso rg ds (lower name) f m s g)
          = (if result (black g) = ''win'' \<and> rating_of (white g) > snd (mejor_victoria s)
             then (lower (username (white g)), rating_of (white g))
             else mejor_victoria s)
      \<and> peor_derrota (paso rg ds (lower name) f m s g)
          = (if result (black g) \<noteq> ''win'' \<and> result (black g) \<in> set derrotas
                \<and> rating_of (white g) < snd (peor_derrota s)
             then (lower (username (white g)), rating_of (white g))
             else peor_derrota s)
      \<and> (pgn g = None \<or> (\<exists>p. pgn g = Some p \<and> rg p \<noteq> ParseError) \<longrightarrow>
           resultados_dia (paso rg ds (lower name) f m s g)
             = dict_update [] (counter_inc (clave_resultado (result (black g))))
                 (ds (case end_time g of None \<Rightarrow> 0 | Some t \<Rightarrow> t))
                 (resultados_dia s))"
  proof (intro impI)
    assume pasa: "\<not> filtrada f (tc_of g) \<and> \<not> rating_of (white g) < m"
    then have p1: "\<not> filtrada f (tc_of g)" and p2: "\<not> rating_rival_de (lower name) g < m"
      by (simp_all add: per)
    note c = paso_clasificacion[OF p1 p2, of rg ds s, unfolded per]
    note r = paso_racha_pasa(1)[OF p1 p2, of rg ds s, unfolded per clasificar_racha(1)]
    note gc = paso_g_color[OF p1 p2, of rg ds s, unfolded per]
    note l = paso_rivales[OF p1 p2, of rg ds s, unfolded per]
    have reg: "pgn g = None \<or> (\<exists>p. pgn g = Some p \<and> rg p \<noteq> ParseError) \<longrightarrow>
        resultados_dia (paso rg ds (lower name) f m s g)
          = dict_update [] (counter_inc (clave_resultado (result (black g))))
              (ds (case end_time g of None \<Rightarrow> 0 | Some t \<Rightarrow> t)) (resultados_dia s)"
      using paso_registro(3)[where rg = rg, OF p1 p2, of ds s] by (simp add: per)
    from l c r gc nb reg show "rivales (paso rg ds (lower name) f m s g)
          = rivales s @ [lower (username (white g))]
      \<and> ratings_rivales (paso rg ds (lower name) f m s g)
          = ratings_rivales s @ [rating_of (white g)]
      \<and> ganadas (paso rg ds (lower name) f m s g)
          = (if result (black g) = ''win'' then ganadas s + 1 else ganadas s)
      \<and> perdidas (paso rg ds (lower name) f m s g)
          = (if result (black g) \<noteq> ''win'' \<and> result (black g) \<in> set derrotas
             then perdidas s + 1 else perdidas s)
      \<and> tablas (paso rg ds (lower name) f m s g)
          = (if result (black g) \<noteq> ''win'' \<and> result (black g) \<notin> set derrotas
             then tablas s + 1 else tablas s)
      \<and> tablas_por_tipo (paso rg ds (lower name) f m s g)
          = (if result (black g) \<noteq> ''win'' \<and> result (black g) \<notin> set derrotas
             then counter_inc (result (black g)) (tablas_por_tipo s)
             else tablas_por_tipo s)
      \<and> racha_actual (paso rg ds (lower name) f m s g)
          = (if result (black g) = ''win''
             then (if racha_actual s \<ge> 0 then racha_actual s + 1 else 1)
             else if result (black g) \<in> set derrotas
             then (if racha_actual s \<le> 0 then racha_actual s - 1 else - 1)
             else 0)
      \<and> negras_g (paso rg ds (lower name) f m s g)
          = (if result (black g) = ''win'' then negras_g s + 1 else negras_g s)
      \<and> blancas_g (paso rg ds (lower name) f m s g) = blancas_g s
      \<and> mejor_victoria (paso rg ds (lower name) f m s g)
          = (if result (black g) = ''win'' \<and> rating_of (white g) > snd (mejor_victoria s)
             then (lower (username (white g)), rating_of (white g))
             else mejor_victoria s)
      \<and> peor_derrota (paso rg ds (lower name) f m s g)
          = (if result (black g) \<noteq> ''win'' \<and> result (black g) \<in> set derrotas
                \<and> rating_of (white g) < snd (peor_derrota s)
             then (lower (username (white g)), rating_of (white g))
             else peor_derrota s)
      \<and> (pgn g = None \<or> (\<exists>p. pgn g = Some p \<and> rg p \<noteq> ParseError) \<longrightarrow>
           resultados_dia (paso rg ds (lower name) f m s g)
             = dict_update [] (counter_inc (clave_resultado (result (black g))))
                 (ds (case end_time g of None \<Rightarrow> 0 | Some t \<Rightarrow> t))
                 (resultados_dia s))"
      by simp
  qed
  from como_negras per color campos show ?thesis unfolding u by blast
qed

theorem C10_ni_blancas_ni_negras_witness:
  "lower (username (white partida_ej2)) \<noteq> lower ''Otro''
   \<and> lower (username (black partida_ej2)) \<noteq> lower ''Otro''
   \<and> \<not> filtrada None (tc_of partida_ej2)
   \<and> \<not> rating_of (white partida_ej2) < 0
   \<and> pgn partida_ej2 = Some ''pgn30'' \<and> read_game_ej ''pgn30'' = Game (jugadas_ej 30)
   \<and> result (white partida_ej2) = ''win'' \<and> result (black partida_ej2) = ''resigned''
   \<and> negras_partidas
        (paso read_game_ej dia_semana_ej (user (init ''Otro'')) None 0 stats_iniciales partida_ej2)
       = 1
   \<and> rivales
        (paso read_game_ej dia_semana_ej (user (init ''Otro'')) None 0 stats_iniciales partida_ej2)
       = [''rival2'']
   \<and> ratings_rivales
        (paso read_game_ej dia_semana_ej (user (init ''Otro'')) None 0 stats_iniciales partida_ej2)
       = [1600]
   \<and> ganadas
        (paso read_game_ej dia_semana_ej (user (init ''Otro'')) None 0 stats_iniciales partida_ej2)
       = 0
   \<and> perdidas
        (paso read_game_ej dia_semana_ej (user (init ''Otro'')) None 0 stats_iniciales partida_ej2)
       = 1
   \<and> racha_actual
        (paso read_game_ej dia_semana_ej (user (init ''Otro'')) None 0 stats_iniciales partida_ej2)
       = - 1
   \<and> peor_derrota
        (paso read_game_ej dia_semana_ej (user (init ''Otro'')) None 0 stats_iniciales partida_ej2)
       = (''rival2'', 1600)
   \<and> resultados_dia
        (paso read_game_ej dia_semana_ej (user (init ''Otro'')) None 0 stats_iniciales partida_ej2)
       = [(dia_semana_ej 1700090000, [(''perdidas'', 1)])]"
proof -
  have h1: "lower (username (white partida_ej2)) \<noteq> lower ''Otro''"
    by (simp add: partida_ej2_def lower_def lower_char_def)
  have h2: "lower (username (black partida_ej2)) \<noteq> lower ''Otro''"
    by (simp add: partida_ej2_def lower_def lower_char_def)
  have h3: "\<not> filtrada None (tc_of partida_ej2)" by (rule sin_filtro)
  have h4: "\<not> rating_of (white partida_ej2) < 0"
    by (simp add: partida_ej2_def rating_of_def)
  have h5: "pgn partida_ej2 = None
      \<or> (\<exists>p. pgn partida_ej2 = Some p \<and> read_game_ej p \<noteq> ParseError)"
    by (simp add: partida_ej2_def read_game_ej_def)
  have v: "lower (username (white partida_ej2)) = ''rival2''"
    "rating_of (white partida_ej2) = 1600" "result (black partida_ej2) = ''resigned''"
    "result (white partida_ej2) = ''win''" "end_time partida_ej2 = Some 1700090000"
    by (simp_all add: partida_ej2_def lower_ej rating_of_def)
  have i: "negras_partidas stats_iniciales = 0" "rivales stats_iniciales = []"
    "ratings_rivales stats_iniciales = []" "ganadas stats_iniciales = 0"
    "perdidas stats_iniciales = 0" "racha_actual stats_iniciales = 0"
    "peor_derrota stats_iniciales = ([], 9999)" "resultados_dia stats_iniciales = []"
    by (simp_all add: stats_iniciales_def)
  note c = C10_ni_blancas_ni_negras[OF h1 h2, of read_game_ej dia_semana_ej None 0
      stats_iniciales]
  from c h3 have n: "negras_partidas
      (paso read_game_ej dia_semana_ej (user (init ''Otro'')) None 0 stats_iniciales partida_ej2)
      = negras_partidas stats_iniciales + 1"
    by blast
  from c h3 h4 have r: "rivales
      (paso read_game_ej dia_semana_ej (user (init ''Otro'')) None 0 stats_iniciales partida_ej2)
      = rivales stats_iniciales @ [lower (username (white partida_ej2))]"
    "ratings_rivales
      (paso read_game_ej dia_semana_ej (user (init ''Otro'')) None 0 stats_iniciales partida_ej2)
      = ratings_rivales stats_iniciales @ [rating_of (white partida_ej2)]"
    by blast+
  from c h3 h4 have g: "ganadas
      (paso read_game_ej dia_semana_ej (user (init ''Otro'')) None 0 stats_iniciales partida_ej2)
      = (if result (black partida_ej2) = ''win'' then ganadas stats_iniciales + 1
         else ganadas stats_iniciales)"
    by blast
  from c h3 h4 have p: "perdidas
      (paso read_game_ej dia_semana_ej (user (init ''Otro'')) None 0 stats_iniciales partida_ej2)
      = (if result (black partida_ej2) \<noteq> ''win'' \<and> result (black partida_ej2) \<in> set derrotas
         then perdidas stats_iniciales + 1 else perdidas stats_iniciales)"
    by blast
  from c h3 h4 have ra: "racha_actual
      (paso read_game_ej dia_semana_ej (user (init ''Otro'')) None 0 stats_iniciales partida_ej2)
      = (if result (black partida_ej2) = ''win''
         then (if racha_actual stats_iniciales \<ge> 0 then racha_actual stats_iniciales + 1 else 1)
         else if result (black partida_ej2) \<in> set derrotas
         then (if racha_actual stats_iniciales \<le> 0 then racha_actual stats_iniciales - 1
               else - 1)
         else 0)"
    by blast
  from c h3 h4 have pd: "peor_derrota
      (paso read_game_ej dia_semana_ej (user (init ''Otro'')) None 0 stats_iniciales partida_ej2)
      = (if result (black partida_ej2) \<noteq> ''win'' \<and> result (black partida_ej2) \<in> set derrotas
            \<and> rating_of (white partida_ej2) < snd (peor_derrota stats_iniciales)
         then (lower (username (white partida_ej2)), rating_of (white partida_ej2))
         else peor_derrota stats_iniciales)"
    by blast
  from c h3 h4 h5 have rd: "resultados_dia
      (paso read_game_ej dia_semana_ej (user (init ''Otro'')) None 0 stats_iniciales partida_ej2)
      = dict_update [] (counter_inc (clave_resultado (result (black partida_ej2))))
          (dia_semana_ej (case end_time partida_ej2 of None \<Rightarrow> 0 | Some t \<Rightarrow> t))
          (resultados_dia stats_iniciales)"
    by blast
  have h6: "pgn partida_ej2 = Some ''pgn30''" "read_game_ej ''pgn30'' = Game (jugadas_ej 30)"
    by (simp_all add: partida_ej2_def read_game_ej_def)
  from h1 h2 h3 h4 h6 n r g p ra pd rd show ?thesis
    by (simp add: v i derrotas_def clave_resultado_def counter_inc_def)
qed

end
